theory Spec2Isabelle
  imports Main
begin

text \<open>
  The IMAP node of a workflow host: its entry point \<open>execute\<close> and its credential test
  hook \<open>testImapCredentials\<close> (nodes/Imap/Imap.node.ts). Both are glue around an IMAP
  client library and the host's execution context, so they are modelled as functions of
  what the host, the library and the imported operation table answer, and they return,
  beside their result, the trace of the calls they make.
\<close>

section \<open>JavaScript values\<close>

text \<open>
  The node receives its input as the host's item list: every item carries a JSON-like
  object under \<open>json\<close>. The values found there are modelled by one datatype; numbers are
  the integers (a port is one) and \<open>NaN\<close>, the number that is falsy besides zero.
  \<open>JBuiltin\<close> is a function or an object that an object inherits from
  \<open>Object.prototype\<close>, such as \<open>constructor\<close> or \<open>toString\<close>.
\<close>

datatype jsvalue =
    JUndefined
  | JNull
  | JBool bool
  | JNumber int
  | JNaN
  | JString string
  | JArray "jsvalue list"
  | JObject "(string \<times> jsvalue) list"
  | JBuiltin

text \<open>JavaScript's truthiness, as \<open>!x\<close> and \<open>x || y\<close> test it.\<close>

fun truthy :: "jsvalue \<Rightarrow> bool" where
  "truthy JUndefined = False"
| "truthy JNull = False"
| "truthy (JBool b) = b"
| "truthy (JNumber n) = (n \<noteq> 0)"
| "truthy JNaN = False"
| "truthy (JString s) = (s \<noteq> [])"
| "truthy (JArray xs) = True"
| "truthy (JObject kvs) = True"
| "truthy JBuiltin = True"

text \<open>The properties every plain object inherits from \<open>Object.prototype\<close>.\<close>

definition Object_prototype :: "string list" where
  "Object_prototype =
     [''constructor'', ''hasOwnProperty'', ''isPrototypeOf'', ''propertyIsEnumerable'',
      ''toLocaleString'', ''toString'', ''valueOf'', ''__defineGetter__'', ''__defineSetter__'',
      ''__lookupGetter__'', ''__lookupSetter__'', ''__proto__'']"

text \<open>
  \<open>o.k\<close> and \<open>o[k]\<close>: the own property \<open>k\<close> of an object, else the property it
  inherits from \<open>Object.prototype\<close>, else \<open>undefined\<close>. On a value that is no plain
  object the node reads only the six fields of the credentials, \<open>host\<close>, \<open>port\<close>,
  \<open>user\<close>, \<open>password\<close>, \<open>tls\<close> and \<open>allowUnauthorizedCerts\<close>, none of which is a
  built-in property of a string, a number, a boolean, an array or a function: the read
  gives \<open>undefined\<close>. The node reads a property only of a value it has found truthy, so
  these reads never fail.
\<close>

fun js_get :: "jsvalue \<Rightarrow> string \<Rightarrow> jsvalue" where
  "js_get (JObject kvs) k =
     (case map_of kvs k of
        Some v \<Rightarrow> v
      | None \<Rightarrow> if k \<in> set Object_prototype then JBuiltin else JUndefined)"
| "js_get v k = JUndefined"

text \<open>\<open>a || b\<close>\<close>

definition js_or :: "jsvalue \<Rightarrow> jsvalue \<Rightarrow> jsvalue" where
  "js_or a b = (if truthy a then a else b)"

text \<open>
  A string-valued property of an error object is absent (\<open>None\<close>) or a string; it is
  truthy when it is a non-empty string.
\<close>

definition str_truthy :: "string option \<Rightarrow> bool" where
  "str_truthy a = (case a of None \<Rightarrow> False | Some s \<Rightarrow> s \<noteq> [])"

definition str_or :: "string option \<Rightarrow> string option \<Rightarrow> string option" where
  "str_or a b = (if str_truthy a then a else b)"

text \<open>\<open>a || d\<close> with a string \<open>d\<close> as the last alternative.\<close>

fun or_else :: "string option \<Rightarrow> string \<Rightarrow> string" where
  "or_else None d = d"
| "or_else (Some s) d = (if s = [] then d else s)"

text \<open>A value inside a template literal: \<open>undefined\<close> prints as the word.\<close>

fun template :: "string option \<Rightarrow> string" where
  "template None = ''undefined''"
| "template (Some s) = s"

text \<open>\<open>Array.prototype.join\<close> on an array of strings.\<close>

fun join :: "string \<Rightarrow> string list \<Rightarrow> string" where
  "join sep [] = []"
| "join sep [x] = x"
| "join sep (x # y # ys) = x @ sep @ join sep (y # ys)"

text \<open>A value between the double quotes a template literal spells out.\<close>

definition quoted :: "string \<Rightarrow> string" where
  "quoted s = [CHR 0x22] @ s @ [CHR 0x22]"

definition newline :: string where
  "newline = [CHR 0x0A]"

section \<open>Errors and promises\<close>

text \<open>
  What a call can throw, and what a promise can be rejected with, is any value: an
  instance of the host's \<open>NodeApiError\<close>, with the message and the description it
  carries; any other object or primitive, of which the node reads the properties
  \<open>responseText\<close> and \<open>message\<close> and which it passes to \<open>JSON.stringify\<close>; \<open>null\<close>;
  or \<open>undefined\<close>. \<open>JSON.stringify\<close> returns a text, or throws a \<open>TypeError\<close> with
  the given message (on a cyclic object, for one).
\<close>

datatype json_result = Stringified string | StringifyThrows string

datatype thrown =
    NodeApiError string "string option"
  | OtherError "string option" "string option" json_result
  | ThrownNull
  | ThrownUndefined


text \<open>
  The errors the engine itself throws are error objects: they have a message and no
  \<open>responseText\<close>, and \<open>JSON.stringify\<close> prints them as \<open>{}\<close>. Reading a property of
  \<open>null\<close> or of \<open>undefined\<close> throws a \<open>TypeError\<close>; spreading too many arguments into
  one call throws a \<open>RangeError\<close>. The node never looks at the class of such an error,
  only at these properties, so the two differ by their message alone.
\<close>

definition TypeError :: "string \<Rightarrow> thrown" where
  "TypeError text = OtherError None (Some text) (Stringified ''{}'')"

definition RangeError :: "string \<Rightarrow> thrown" where
  "RangeError text = OtherError None (Some text) (Stringified ''{}'')"

definition cannot_read :: "string \<Rightarrow> string \<Rightarrow> thrown" where
  "cannot_read v property =
     TypeError (''Cannot read properties of '' @ v @ '' (reading '' @ [CHR 0x27] @ property @
                [CHR 0x27] @ '')'')"

text \<open>\<open>error.responseText\<close> and \<open>error.message\<close>: the property, or the throw of the read.\<close>

fun error_responseText :: "thrown \<Rightarrow> thrown + string option" where
  "error_responseText (NodeApiError m d) = Inr None"
| "error_responseText (OtherError rt m j) = Inr rt"
| "error_responseText ThrownNull = Inl (cannot_read ''null'' ''responseText'')"
| "error_responseText ThrownUndefined = Inl (cannot_read ''undefined'' ''responseText'')"

fun error_message :: "thrown \<Rightarrow> thrown + string option" where
  "error_message (NodeApiError m d) = Inr (Some m)"
| "error_message (OtherError rt m j) = Inr m"
| "error_message ThrownNull = Inl (cannot_read ''null'' ''message'')"
| "error_message ThrownUndefined = Inl (cannot_read ''undefined'' ''message'')"

text \<open>
  An asynchronous call returns a promise, which settles to a value or to an error.
  \<open>await\<close> turns a rejection into a throw. A call whose promise is dropped
  (\<open>client.logout();\<close> is never awaited) goes on with its continuation whatever the
  promise settles to.
\<close>

datatype 'a promise = Fulfilled 'a | Rejected thrown

fun await :: "'a promise \<Rightarrow> thrown + 'a" where
  "await (Fulfilled v) = Inr v"
| "await (Rejected e) = Inl e"

definition unawaited :: "'a promise \<Rightarrow> 'b \<Rightarrow> 'b" where
  "unawaited p k = k"

section \<open>The host, the wrapped client and the operation table\<close>

record INodeExecutionData =
  json :: "(string \<times> jsvalue) list"

text \<open>
  The credentials record, with the fields the object literal of \<open>execute\<close> gives it.
  The casts of the source (\<open>as string\<close>, \<open>as number\<close>) check nothing at run time, so
  \<open>host\<close>, \<open>port\<close>, \<open>user\<close> and \<open>password\<close> hold the values as they came.
\<close>

record ImapCredentialsData =
  host :: jsvalue
  port :: jsvalue
  user :: jsvalue
  password :: jsvalue
  tls :: bool
  allowUnauthorizedCerts :: bool

datatype imap_client = ImapFlow nat

text \<open>
  Modelled from the spec: the error-interception shim \<open>ImapFlowErrorCatcher\<close>
  (utils/ImapUtils) is not among the sources. By the spec it recovers the error strings
  the wrapped library logs instead of throwing: \<open>stopAndGetErrors\<close> returns the lines
  logged since \<open>startErrorCatching\<close>, which \<open>execute\<close> calls right before each handler
  call. One call of a handler is therefore given by the promise \<open>executeImapAction\<close>
  returns (its value is an array of items, or a falsy value, \<open>None\<close>) and by the lines
  the library logged while it ran, the \<open>internal_errors\<close> of the call.
\<close>

record action_outcome =
  action_result :: "INodeExecutionData list option promise"
  internal_errors :: "string list"

datatype credential_store = HostCredentialStore | NodeLocalCredentialStore

datatype credential_source = FromStore credential_store | FromInputItem

text \<open>
  Modelled from the spec: \<open>getImapCredentials\<close> (utils/CredentialsSelector) and
  \<open>createImapClient\<close> (utils/ImapUtils) are not among the sources. By the spec the first
  resolves the credentials from the host credential store or from the node-local
  credential store: its outcome is taken as given, with the store it read. The second
  builds the client from the credentials (the logger and the debug flag it also takes
  are left out), or throws.

  The other fields are what \<open>execute\<close> calls and does not define. \<open>getNodeParameter\<close>
  and \<open>getInputData\<close> are the host's, and return what the host holds. \<open>connect\<close> and
  \<open>logout\<close> are the asynchronous methods of the wrapped client, so a call of them
  returns a promise and does not throw. \<open>NodeApiError\<close> is the host's class:
  \<open>nodeApiErrorMessage\<close> is the message an instance carries when it is built, as
  \<open>execute\<close> builds it, from an empty error response and the given message; the class
  keeps the message or, when it contains a common error code such as \<open>ECONNRESET\<close>,
  replaces it by a descriptive text. The description is carried as given.
  \<open>argumentLimit\<close> is the engine's: the number of arguments one call takes, beyond
  which \<open>resultItems.push(...result)\<close> throws a \<open>RangeError\<close>. The calls of the logger
  are taken not to throw.
\<close>

record host_env =
  getNodeParameter :: "string \<Rightarrow> nat \<Rightarrow> string"
  getInputData :: "INodeExecutionData list"
  getImapCredentials :: "(credential_store \<times> ImapCredentialsData) promise"
  createImapClient :: "ImapCredentialsData \<Rightarrow> thrown + imap_client"
  connect :: "imap_client \<Rightarrow> unit promise"
  logout :: "imap_client \<Rightarrow> unit promise"
  nodeApiErrorMessage :: "string \<Rightarrow> string"
  argumentLimit :: nat

text \<open>
  An operation of the imported table \<open>allResourceDefinitions\<close>: its name and its handler,
  called as \<open>handler.executeImapAction(this, itemIndex, client)\<close>. A resource is a name
  and its operations.
\<close>

record operation_def =
  operation_value :: string
  executeImapAction :: "host_env \<Rightarrow> nat \<Rightarrow> imap_client \<Rightarrow> action_outcome"

record resource_def =
  resource_value :: string
  operationDefs :: "operation_def list"

section \<open>The trace of an execution\<close>

text \<open>
  Every call that leaves \<open>execute\<close> is recorded, in order: an execution is its trace
  and its result (the error it throws, or the branches it returns).
\<close>

datatype log_level = LogError | LogWarn | LogInfo

datatype event =
    EvGetNodeParameter string nat
  | EvGetInputData
  | EvGetImapCredentials
  | EvCreateImapClient ImapCredentialsData
  | EvConnect imap_client
  | EvLogout imap_client
  | EvStartErrorCatching
  | EvExecuteImapAction nat imap_client
  | EvStopAndGetErrors
  | EvLog log_level string

fun is_connect :: "event \<Rightarrow> bool" where
  "is_connect (EvConnect c) = True"
| "is_connect e = False"

fun is_logout :: "event \<Rightarrow> bool" where
  "is_logout (EvLogout c) = True"
| "is_logout e = False"

fun is_action :: "event \<Rightarrow> bool" where
  "is_action (EvExecuteImapAction i c) = True"
| "is_action e = False"

text \<open>
  The other kinds of events the statements count: the creation of a client, the call of
  \<open>getImapCredentials\<close>, a warning, an error written to the log, and the read of a
  parameter at an item index other than 0.
\<close>

fun is_create :: "event \<Rightarrow> bool" where
  "is_create (EvCreateImapClient c) = True"
| "is_create e = False"

fun is_warning :: "event \<Rightarrow> bool" where
  "is_warning (EvLog LogWarn text) = True"
| "is_warning e = False"

fun is_error_log :: "event \<Rightarrow> bool" where
  "is_error_log (EvLog LogError text) = True"
| "is_error_log e = False"

fun reads_other_item :: "event \<Rightarrow> bool" where
  "reads_other_item (EvGetNodeParameter name itemIndex) = (itemIndex \<noteq> 0)"
| "reads_other_item e = False"

fun is_get_credentials :: "event \<Rightarrow> bool" where
  "is_get_credentials EvGetImapCredentials = True"
| "is_get_credentials e = False"

section \<open>Imap.execute\<close>

definition CREDENTIALS_TYPE_FROM_INPUT :: string where
  "CREDENTIALS_TYPE_FROM_INPUT = ''fromInput''"

text \<open>
  \<open>new NodeApiError(this.getNode(), {}, {message, description})\<close>: the instance the
  host's class builds.
\<close>

definition new_NodeApiError :: "host_env \<Rightarrow> string \<Rightarrow> string option \<Rightarrow> thrown" where
  "new_NodeApiError env text description = NodeApiError (nodeApiErrorMessage env text) description"

text \<open>The object literal of lines 176 to 183, from the value of the credentials field.\<close>

definition extract_credentials :: "jsvalue \<Rightarrow> ImapCredentialsData" where
  "extract_credentials inputCredentials =
     \<lparr> host = js_get inputCredentials ''host'',
       port = js_or (js_get inputCredentials ''port'') (JNumber 993),
       user = js_get inputCredentials ''user'',
       password = js_get inputCredentials ''password'',
       tls = (js_get inputCredentials ''tls'' \<noteq> JBool False),
       allowUnauthorizedCerts = (js_get inputCredentials ''allowUnauthorizedCerts'' = JBool True) \<rparr>"

text \<open>
  Lines 140 to 187: the credentials, from the first input item or from
  \<open>getImapCredentials\<close>.
\<close>

definition resolve_credentials ::
  "host_env \<Rightarrow> event list \<times> (thrown + credential_source \<times> ImapCredentialsData)" where
  "resolve_credentials env =
     (let authentication = getNodeParameter env ''authentication'' 0;
          t0 = [EvGetNodeParameter ''authentication'' 0]
      in if authentication = CREDENTIALS_TYPE_FROM_INPUT then
           (let items = getInputData env;
                t1 = t0 @ [EvGetInputData]
            in case items of
                 [] \<Rightarrow> (t1, Inl (new_NodeApiError env ''No input items provided'' None))
               | first_item # others \<Rightarrow>
                   (let credentialsField = getNodeParameter env ''credentialsField'' 0;
                        t2 = t1 @ [EvGetNodeParameter ''credentialsField'' 0];
                        inputCredentials = js_get (JObject (json first_item)) credentialsField
                    in if \<not> truthy inputCredentials then
                         (t2, Inl (new_NodeApiError env
                            (''No credentials found in field '' @ quoted credentialsField) None))
                       else if \<not> truthy (js_get inputCredentials ''host'')
                             \<or> \<not> truthy (js_get inputCredentials ''user'')
                             \<or> \<not> truthy (js_get inputCredentials ''password'') then
                         (t2, Inl (new_NodeApiError env
                            ''Credentials must contain at least host, user, and password fields''
                            None))
                       else (t2, Inr (FromInputItem, extract_credentials inputCredentials))))
         else
           (case await (getImapCredentials env) of
              Inl e \<Rightarrow> (t0 @ [EvGetImapCredentials], Inl e)
            | Inr (store, credentials) \<Rightarrow>
                (t0 @ [EvGetImapCredentials], Inr (FromStore store, credentials))))"

text \<open>Line 215: the first resource of that name, and in it the first operation of that name.\<close>

definition find_handler :: "resource_def list \<Rightarrow> string \<Rightarrow> string \<Rightarrow> operation_def option" where
  "find_handler defs resource operation =
     (case find (\<lambda>resourceDef. resource_value resourceDef = resource) defs of
        None \<Rightarrow> None
      | Some resourceDef \<Rightarrow>
          find (\<lambda>operationDef. operation_value operationDef = operation) (operationDefs resourceDef))"

text \<open>
  Lines 231 to 263, the \<open>catch\<close> of the processing of one item: the trace it adds and
  the error it throws. A \<open>NodeApiError\<close> is thrown again (line 241). On \<open>null\<close> and on
  \<open>undefined\<close> the read of \<open>error.responseText\<close> (line 246) throws; on an object that
  \<open>JSON.stringify\<close> does not print, line 255 throws. The \<open>catch\<close> has no handler of its
  own, so what it throws leaves the loop.
\<close>

definition handle_action_error ::
  "host_env \<Rightarrow> string \<Rightarrow> string \<Rightarrow> thrown \<Rightarrow> string list \<Rightarrow> event list \<times> thrown" where
  "handle_action_error env resource operation error internalImapErrors =
     (let internalImapErrorsMessage = join ('', '' @ newline) internalImapErrors;
          t1 = [EvStopAndGetErrors] @
               (if length internalImapErrors > 0
                then [EvLog LogError (''IMAP server reported errors: '' @ internalImapErrorsMessage)]
                else [])
      in case error of
           NodeApiError m d \<Rightarrow> (t1, error)
         | ThrownNull \<Rightarrow> (t1, cannot_read ''null'' ''responseText'')
         | ThrownUndefined \<Rightarrow> (t1, cannot_read ''undefined'' ''responseText'')
         | OtherError responseText text printed \<Rightarrow>
             (let errorMessage =
                    or_else (str_or responseText text)
                      (if internalImapErrorsMessage \<noteq> [] then internalImapErrorsMessage
                       else ''Unknown error'');
                  t2 = t1 @
                    [EvLog LogError (''Operation '' @ quoted operation @ '' for resource '' @
                       quoted resource @ '' failed: '' @ errorMessage)];
                  description =
                    (if internalImapErrorsMessage \<noteq> [] then
                       Some (''The following errors were reported by the IMAP server: '' @ newline @
                             internalImapErrorsMessage)
                     else None)
              in case printed of
                   StringifyThrows reason \<Rightarrow> (t2, TypeError reason)
                 | Stringified json_text \<Rightarrow>
                     (t2 @ [EvLog LogError json_text],
                      new_NodeApiError env errorMessage description)))"

text \<open>
  \<open>resultItems.push(...result)\<close>, line 227: the items are appended, unless they are
  more than one call takes as arguments.
\<close>

definition push_spread ::
  "host_env \<Rightarrow> INodeExecutionData list \<Rightarrow> INodeExecutionData list \<Rightarrow>
   thrown + INodeExecutionData list" where
  "push_spread env resultItems result =
     (if length result \<le> argumentLimit env then Inr (resultItems @ result)
      else Inl (RangeError ''Maximum call stack size exceeded''))"

text \<open>
  Lines 220 to 264, the loop over the input items, from \<open>itemIndex\<close> on, with the
  result list collected so far.
\<close>

function item_loop ::
  "host_env \<Rightarrow> operation_def \<Rightarrow> string \<Rightarrow> string \<Rightarrow> imap_client \<Rightarrow> nat \<Rightarrow> nat \<Rightarrow>
   INodeExecutionData list \<Rightarrow> event list \<times> (thrown + INodeExecutionData list)" where
  "item_loop env handler resource operation client n itemIndex resultItems =
     (if itemIndex < n then
        (case await (action_result (executeImapAction handler env itemIndex client)) of
           Inr None \<Rightarrow>
             (case item_loop env handler resource operation client n (Suc itemIndex) resultItems of
                (t, r) \<Rightarrow>
                  ([EvStartErrorCatching, EvExecuteImapAction itemIndex client,
                    EvLog LogWarn (''Operation '' @ quoted operation @ '' for resource '' @
                      quoted resource @ '' returned no data'')] @ t, r))
         | Inr (Some result) \<Rightarrow>
             (case push_spread env resultItems result of
                Inr pushed \<Rightarrow>
                  (case item_loop env handler resource operation client n (Suc itemIndex) pushed of
                     (t, r) \<Rightarrow> ([EvStartErrorCatching, EvExecuteImapAction itemIndex client] @ t, r))
              | Inl error \<Rightarrow>
                  (case handle_action_error env resource operation error
                          (internal_errors (executeImapAction handler env itemIndex client)) of
                     (t, e) \<Rightarrow>
                       ([EvStartErrorCatching, EvExecuteImapAction itemIndex client] @ t, Inl e)))
         | Inl error \<Rightarrow>
             (case handle_action_error env resource operation error
                     (internal_errors (executeImapAction handler env itemIndex client)) of
                (t, e) \<Rightarrow> ([EvStartErrorCatching, EvExecuteImapAction itemIndex client] @ t, Inl e)))
      else ([], Inr resultItems))"
  by pat_completeness auto
termination
  by (relation "measure (\<lambda>(env, handler, resource, operation, client, n, itemIndex, resultItems). n - itemIndex)") auto

declare item_loop.simps [simp del]

text \<open>
  Lines 205 to 271, the body of the \<open>try\<close> up to the close of the connection: the
  lookup of the handler and the loop.
\<close>

definition run_operation ::
  "resource_def list \<Rightarrow> host_env \<Rightarrow> imap_client \<Rightarrow> event list \<times> (thrown + INodeExecutionData list list)" where
  "run_operation allResourceDefinitions env client =
     (let resource = getNodeParameter env ''resource'' 0;
          operation = getNodeParameter env ''operation'' 0;
          t0 = [EvGetNodeParameter ''resource'' 0, EvGetNodeParameter ''operation'' 0]
      in case find_handler allResourceDefinitions resource operation of
           Some handler \<Rightarrow>
             (let items = getInputData env
              in case item_loop env handler resource operation client (length items) 0 [] of
                   (t, Inl e) \<Rightarrow> (t0 @ [EvGetInputData] @ t, Inl e)
                 | (t, Inr resultItems) \<Rightarrow> (t0 @ [EvGetInputData] @ t, Inr [resultItems]))
         | None \<Rightarrow>
             (t0 @ [EvLog LogError (''Unknown operation '' @ quoted operation @
                      '' for resource '' @ quoted resource)],
              Inl (new_NodeApiError env (''Unknown operation '' @ quoted operation @
                      '' for resource '' @ quoted resource) None)))"

text \<open>
  Lines 196 to 201, the \<open>catch\<close> of \<open>connect\<close>: the log it writes and the error it
  throws. The read of \<open>error.message\<close> for the log throws on \<open>null\<close> and on
  \<open>undefined\<close>.
\<close>

definition connect_failed :: "host_env \<Rightarrow> thrown \<Rightarrow> event list \<times> thrown" where
  "connect_failed env error =
     (case error_message error of
        Inl typeError \<Rightarrow> ([], typeError)
      | Inr text \<Rightarrow>
          (case error_responseText error of
             Inl typeError \<Rightarrow> ([EvLog LogError (''Connection failed: '' @ template text)], typeError)
           | Inr responseText \<Rightarrow>
               ([EvLog LogError (''Connection failed: '' @ template text)],
                new_NodeApiError env (or_else (str_or responseText text) ''Unknown error'') None)))"

text \<open>
  Lines 140 to 201: the credentials, the client and the connection. The client is
  returned once \<open>connect\<close> has succeeded.
\<close>

definition open_connection :: "host_env \<Rightarrow> event list \<times> (thrown + imap_client)" where
  "open_connection env =
     (case resolve_credentials env of
        (t, Inl e) \<Rightarrow> (t, Inl e)
      | (t, Inr (source, credentials)) \<Rightarrow>
          (case createImapClient env credentials of
             Inl e \<Rightarrow> (t @ [EvCreateImapClient credentials], Inl e)
           | Inr client \<Rightarrow>
               (case await (connect env client) of
                  Inl error \<Rightarrow>
                    (case connect_failed env error of
                       (t', e) \<Rightarrow>
                         (t @ [EvCreateImapClient credentials, EvConnect client] @ t', Inl e))
                | Inr connected \<Rightarrow>
                    (t @ [EvCreateImapClient credentials, EvConnect client], Inr client))))"

text \<open>
  Lines 277 to 282, the \<open>catch\<close> around the operation, after \<open>client.logout()\<close>: the
  log it writes and the error it throws.
\<close>

definition operation_failed :: "thrown \<Rightarrow> event list \<times> thrown" where
  "operation_failed error =
     (case error_message error of
        Inl typeError \<Rightarrow> ([], typeError)
      | Inr text \<Rightarrow>
          ([EvLog LogError (''IMAP connection closed. Error: '' @ template text)], error))"

text \<open>
  Lines 137 to 285: the connection, then the \<open>try\<close> and its \<open>catch\<close>, which both end
  with \<open>client.logout()\<close>, not awaited.
\<close>

definition execute ::
  "resource_def list \<Rightarrow> host_env \<Rightarrow> event list \<times> (thrown + INodeExecutionData list list)" where
  "execute allResourceDefinitions env =
     (case open_connection env of
        (t, Inl e) \<Rightarrow> (t, Inl e)
      | (t, Inr client) \<Rightarrow>
          (case run_operation allResourceDefinitions env client of
             (t', Inr resultBranches) \<Rightarrow>
               unawaited (logout env client)
                 (t @ t' @ [EvLogout client, EvLog LogInfo ''IMAP connection closed''],
                  Inr resultBranches)
           | (t', Inl error) \<Rightarrow>
               unawaited (logout env client)
                 (case operation_failed error of
                    (t'', e) \<Rightarrow> (t @ t' @ [EvLogout client] @ t'', Inl e))))"

section \<open>The credential test hook\<close>




section \<open>Notions used in the statements\<close>

text \<open>
  The error that the processing of item \<open>i\<close> throws, if it throws: the one the handler
  call is rejected with, or the \<open>RangeError\<close> of a result too long to be spread into
  \<open>push\<close>. Then whether the processing of item \<open>i\<close> throws, the items it contributes to
  the result, the warning of a call that returns no data, and the trace of the
  processing of one item that does not throw.
\<close>

definition item_error :: "host_env \<Rightarrow> operation_def \<Rightarrow> imap_client \<Rightarrow> nat \<Rightarrow> thrown option" where
  "item_error env h c i =
     (case action_result (executeImapAction h env i c) of
        Rejected e \<Rightarrow> Some e
      | Fulfilled None \<Rightarrow> None
      | Fulfilled (Some r) \<Rightarrow>
          (if length r \<le> argumentLimit env then None
           else Some (RangeError ''Maximum call stack size exceeded'')))"

definition action_throws :: "host_env \<Rightarrow> operation_def \<Rightarrow> imap_client \<Rightarrow> nat \<Rightarrow> bool" where
  "action_throws env h c i = (item_error env h c i \<noteq> None)"

definition action_items :: "host_env \<Rightarrow> operation_def \<Rightarrow> imap_client \<Rightarrow> nat \<Rightarrow> INodeExecutionData list" where
  "action_items env h c i =
     (case action_result (executeImapAction h env i c) of
        Fulfilled (Some r) \<Rightarrow> r | Fulfilled None \<Rightarrow> [] | Rejected e \<Rightarrow> [])"

definition no_data_warning :: "string \<Rightarrow> string \<Rightarrow> event" where
  "no_data_warning resource operation =
     EvLog LogWarn (''Operation '' @ quoted operation @ '' for resource '' @
                      quoted resource @ '' returned no data'')"

definition item_trace :: "host_env \<Rightarrow> operation_def \<Rightarrow> string \<Rightarrow> string \<Rightarrow> imap_client \<Rightarrow> nat \<Rightarrow> event list" where
  "item_trace env h r ope c i = [EvStartErrorCatching, EvExecuteImapAction i c] @
     (if action_result (executeImapAction h env i c) = Fulfilled None then [no_data_warning r ope] else [])"

text \<open>\<open>items[0].json[credentialsField]\<close>, the value of the credentials field.\<close>

definition credentials_field_value :: "host_env \<Rightarrow> jsvalue" where
  "credentials_field_value env =
     (case getInputData env of
        [] \<Rightarrow> JUndefined
      | first_item # others \<Rightarrow>
          js_get (JObject (json first_item)) (getNodeParameter env ''credentialsField'' 0))"

text \<open>The names of the fields of the credentials record.\<close>

definition credential_fields :: "string list" where
  "credential_fields = [''host'', ''port'', ''user'', ''password'', ''tls'', ''allowUnauthorizedCerts'']"

section \<open>Sample executions\<close>

text \<open>
  A host with two input items, the first of which carries credentials, and one
  registered operation that returns a mailbox for the first item and no data for the
  second. Its \<open>NodeApiError\<close> keeps every message.
\<close>

definition sample_credentials :: jsvalue where
  "sample_credentials =
     JObject [(''host'', JString ''imap.example.org''), (''user'', JString ''alice''),
              (''password'', JString ''secret''), (''tls'', JBool False), (''comment'', JNull)]"

definition sample_items :: "INodeExecutionData list" where
  "sample_items = [\<lparr> json = [(''credentials'', sample_credentials)] \<rparr>, \<lparr> json = [] \<rparr>]"

definition sample_handler :: operation_def where
  "sample_handler =
     \<lparr> operation_value = ''loadMailboxList'',
       executeImapAction = (\<lambda>context itemIndex client.
         if itemIndex = 0
         then \<lparr> action_result = Fulfilled (Some [\<lparr> json = [(''path'', JString ''INBOX'')] \<rparr>]),
                internal_errors = [] \<rparr>
         else \<lparr> action_result = Fulfilled None, internal_errors = [] \<rparr>) \<rparr>"

definition sample_parameters :: "string \<Rightarrow> nat \<Rightarrow> string" where
  "sample_parameters name itemIndex =
     (if name = ''authentication'' then ''fromInput''
      else if name = ''credentialsField'' then ''credentials''
      else if name = ''resource'' then ''mailbox''
      else if name = ''operation'' then ''loadMailboxList''
      else [])"

definition sample_env :: host_env where
  "sample_env =
     \<lparr> getNodeParameter = sample_parameters,
       getInputData = sample_items,
       getImapCredentials =
         Rejected (OtherError None (Some ''no credentials stored'') (Stringified ''{}'')),
       createImapClient = (\<lambda>credentials. Inr (ImapFlow 0)),
       connect = (\<lambda>client. Fulfilled ()),
       logout = (\<lambda>client. Fulfilled ()),
       nodeApiErrorMessage = (\<lambda>text. text),
       argumentLimit = 100000 \<rparr>"

definition sample_table :: "resource_def list" where
  "sample_table = [\<lparr> resource_value = ''mailbox'', operationDefs = [sample_handler] \<rparr>]"

text \<open>
  Variants of it: a server that refuses the connection, a connection rejected with
  \<open>null\<close>, no input item, credentials from the node-local store, and a connection lost
  before \<open>logout\<close>.
\<close>

definition refused_env :: host_env where
  "refused_env = sample_env\<lparr> connect := (\<lambda>client.
      Rejected (OtherError None (Some ''refused'') (Stringified ''{}''))) \<rparr>"

definition null_rejection_env :: host_env where
  "null_rejection_env = sample_env\<lparr> connect := (\<lambda>client. Rejected ThrownNull) \<rparr>"

definition no_items_env :: host_env where
  "no_items_env = sample_env\<lparr> getInputData := [] \<rparr>"

definition stored_credentials :: ImapCredentialsData where
  "stored_credentials = \<lparr> host = JString ''mail.example.org'', port = JNumber 143,
      user = JString ''bob'', password = JString ''hunter2'', tls = True,
      allowUnauthorizedCerts = False \<rparr>"

definition store_env :: host_env where
  "store_env = sample_env\<lparr>
      getNodeParameter := (\<lambda>name itemIndex.
        if name = ''authentication'' then ''imapThisNode'' else sample_parameters name itemIndex),
      getImapCredentials := Fulfilled (NodeLocalCredentialStore, stored_credentials) \<rparr>"

definition lost_logout_env :: host_env where
  "lost_logout_env = sample_env\<lparr> logout := (\<lambda>client.
      Rejected (OtherError None (Some ''Connection not available'') (Stringified ''{}''))) \<rparr>"

text \<open>
  Input items whose credentials give a port and accept unauthorised certificates, whose
  credentials have an empty host, and a credentials field named \<open>constructor\<close>, which
  every item inherits.
\<close>

definition explicit_credentials :: jsvalue where
  "explicit_credentials =
     JObject [(''host'', JString ''imap.example.org''), (''port'', JNumber 143),
              (''user'', JString ''alice''), (''password'', JString ''secret''),
              (''allowUnauthorizedCerts'', JBool True)]"

definition explicit_env :: host_env where
  "explicit_env = sample_env\<lparr> getInputData := [\<lparr> json = [(''credentials'', explicit_credentials)] \<rparr>] \<rparr>"

definition empty_host_env :: host_env where
  "empty_host_env = sample_env\<lparr> getInputData :=
      [\<lparr> json = [(''credentials'',
           JObject [(''host'', JString []), (''user'', JString ''alice''),
                    (''password'', JString ''secret'')])] \<rparr>] \<rparr>"

definition constructor_env :: host_env where
  "constructor_env = sample_env\<lparr>
      getNodeParameter := (\<lambda>name itemIndex.
        if name = ''credentialsField'' then ''constructor'' else sample_parameters name itemIndex) \<rparr>"

text \<open>
  An operation name that is not registered, an operation registered for another
  resource only, a third input item, and a handler that returns a mailbox for the first
  item and throws for every later one, with the given error and the given lines logged
  by the library.
\<close>

definition unknown_operation_env :: host_env where
  "unknown_operation_env = sample_env\<lparr>
      getNodeParameter := (\<lambda>name itemIndex.
        if name = ''operation'' then ''purge'' else sample_parameters name itemIndex) \<rparr>"

definition other_resource_env :: host_env where
  "other_resource_env = sample_env\<lparr>
      getNodeParameter := (\<lambda>name itemIndex.
        if name = ''resource'' then ''email'' else sample_parameters name itemIndex) \<rparr>"

definition three_items_env :: host_env where
  "three_items_env = sample_env\<lparr> getInputData := sample_items @ [\<lparr> json = [] \<rparr>] \<rparr>"

definition rejecting_handler :: "thrown \<Rightarrow> string list \<Rightarrow> operation_def" where
  "rejecting_handler error logged =
     \<lparr> operation_value = ''loadMailboxList'',
       executeImapAction = (\<lambda>context itemIndex client.
         if itemIndex = 0
         then \<lparr> action_result = Fulfilled (Some [\<lparr> json = [(''path'', JString ''INBOX'')] \<rparr>]),
                internal_errors = [] \<rparr>
         else \<lparr> action_result = Rejected error, internal_errors = logged \<rparr>) \<rparr>"

definition rejecting_table :: "thrown \<Rightarrow> string list \<Rightarrow> resource_def list" where
  "rejecting_table error logged =
     [\<lparr> resource_value = ''mailbox'', operationDefs = [rejecting_handler error logged] \<rparr>]"

text \<open>
  A host whose \<open>NodeApiError\<close> replaces a message that contains the error code
  \<open>ECONNREFUSED\<close> by a descriptive text, as the host's class does for the common
  error codes, and an execution on it with an operation of that name, which is not
  registered.
\<close>

fun contains :: "string \<Rightarrow> string \<Rightarrow> bool" where
  "contains code [] = (code = [])"
| "contains code (c # cs) = (take (length code) (c # cs) = code \<or> contains code cs)"

definition describe_common_error :: "string \<Rightarrow> string" where
  "describe_common_error text =
     (if contains ''ECONNREFUSED'' text
      then ''The service refused the connection - perhaps it is offline''
      else text)"

definition describing_env :: host_env where
  "describing_env = sample_env\<lparr>
      getNodeParameter := (\<lambda>name itemIndex.
        if name = ''operation'' then ''ECONNREFUSED'' else sample_parameters name itemIndex),
      nodeApiErrorMessage := describe_common_error \<rparr>"

text \<open>An engine whose calls take no argument at all: every spread of a result throws.\<close>

definition no_argument_env :: host_env where
  "no_argument_env = sample_env\<lparr> argumentLimit := 0 \<rparr>"

section \<open>Properties\<close>

lemmas sample_defs = sample_env_def sample_table_def sample_parameters_def sample_items_def sample_credentials_def
  sample_handler_def refused_env_def null_rejection_env_def no_items_env_def store_env_def
  lost_logout_env_def stored_credentials_def explicit_credentials_def explicit_env_def
  empty_host_env_def constructor_env_def unknown_operation_env_def other_resource_env_def
  three_items_env_def rejecting_handler_def rejecting_table_def describing_env_def
  describe_common_error_def no_argument_env_def Object_prototype_def

lemmas model_defs = execute_def open_connection_def connect_failed_def operation_failed_def
  resolve_credentials_def run_operation_def find_handler_def handle_action_error_def
  push_spread_def new_NodeApiError_def extract_credentials_def credentials_field_value_def
  CREDENTIALS_TYPE_FROM_INPUT_def js_or_def str_or_def str_truthy_def unawaited_def quoted_def
  newline_def TypeError_def RangeError_def cannot_read_def Let_def

subsection \<open>The loop over the items\<close>


lemma item_loop_done: "\<not> i < n \<Longrightarrow> item_loop env h r ope c n i acc = ([], Inr acc)"
  by (simp add: item_loop.simps)

lemma item_loop_step:
  "i < n \<Longrightarrow> \<not> action_throws env h c i \<Longrightarrow>
   item_loop env h r ope c n i acc =
     (item_trace env h r ope c i @ fst (item_loop env h r ope c n (Suc i) (acc @ action_items env h c i)),
      snd (item_loop env h r ope c n (Suc i) (acc @ action_items env h c i)))"
  by (subst item_loop.simps)
     (auto simp: action_throws_def item_error_def action_items_def item_trace_def
           no_data_warning_def push_spread_def
           split: promise.splits option.splits prod.splits sum.splits if_splits)

lemma item_loop_throw:
  "i < n \<Longrightarrow> item_error env h c i = Some e \<Longrightarrow>
   item_loop env h r ope c n i acc =
     ([EvStartErrorCatching, EvExecuteImapAction i c] @
        fst (handle_action_error env r ope e (internal_errors (executeImapAction h env i c))),
      Inl (snd (handle_action_error env r ope e (internal_errors (executeImapAction h env i c)))))"
  by (subst item_loop.simps)
     (auto simp: item_error_def push_spread_def
           split: promise.splits option.splits prod.splits sum.splits if_splits)

lemma item_loop_no_throw:
  "(\<And>j. i \<le> j \<Longrightarrow> j < n \<Longrightarrow> \<not> action_throws env h c j) \<Longrightarrow>
   item_loop env h r ope c n i acc =
     (concat (map (item_trace env h r ope c) [i..<n]), Inr (acc @ concat (map (action_items env h c) [i..<n])))"
proof (induction "n - i" arbitrary: i acc)
  case 0
  then show ?case by (simp add: item_loop_done)
next
  case (Suc d)
  then have lt: "i < n" by simp
  have nt: "\<not> action_throws env h c i" using Suc.prems lt by simp
  have ih: "item_loop env h r ope c n (Suc i) (acc @ action_items env h c i) =
     (concat (map (item_trace env h r ope c) [Suc i..<n]),
      Inr ((acc @ action_items env h c i) @ concat (map (action_items env h c) [Suc i..<n])))"
    using Suc.hyps(2) Suc.prems by (intro Suc.hyps(1)) auto
  show ?case
    using lt by (simp add: item_loop_step[OF lt nt] ih upt_conv_Cons)
qed

lemma item_loop_first_throw:
  "i \<le> k \<Longrightarrow> k < n \<Longrightarrow> item_error env h c k = Some e \<Longrightarrow>
   (\<And>j. i \<le> j \<Longrightarrow> j < k \<Longrightarrow> \<not> action_throws env h c j) \<Longrightarrow>
   item_loop env h r ope c n i acc =
     (concat (map (item_trace env h r ope c) [i..<k]) @ [EvStartErrorCatching, EvExecuteImapAction k c] @
        fst (handle_action_error env r ope e (internal_errors (executeImapAction h env k c))),
      Inl (snd (handle_action_error env r ope e (internal_errors (executeImapAction h env k c)))))"
proof (induction "k - i" arbitrary: i acc)
  case 0
  then have "i = k" by simp
  then show ?case using 0 by (simp add: item_loop_throw)
next
  case (Suc d)
  then have lt: "i < k" by simp
  then have ltn: "i < n" using Suc.prems by simp
  have nt: "\<not> action_throws env h c i" using Suc.prems lt by simp
  have ih: "item_loop env h r ope c n (Suc i) (acc @ action_items env h c i) =
     (concat (map (item_trace env h r ope c) [Suc i..<k]) @ [EvStartErrorCatching, EvExecuteImapAction k c] @
        fst (handle_action_error env r ope e (internal_errors (executeImapAction h env k c))),
      Inl (snd (handle_action_error env r ope e (internal_errors (executeImapAction h env k c)))))"
    using Suc.hyps(2) Suc.prems lt by (intro Suc.hyps(1)) auto
  show ?case
    using lt by (simp add: item_loop_step[OF ltn nt] ih upt_conv_Cons)
qed

lemma action_throws_iff:
  "action_throws env h c i \<longleftrightarrow> (\<exists>e. item_error env h c i = Some e)"
  by (simp add: action_throws_def)

lemma rejected_throws:
  "action_result (executeImapAction h env i c) = Rejected e \<Longrightarrow> action_throws env h c i"
  by (simp add: action_throws_def item_error_def)

lemma first_throw_exists:
  assumes "action_throws env h c k"
  shows "\<exists>m e. m \<le> k \<and> item_error env h c m = Some e \<and> (\<forall>j<m. \<not> action_throws env h c j)"
proof -
  define m where "m = (LEAST j. action_throws env h c j)"
  have t: "action_throws env h c m" unfolding m_def using assms by (rule LeastI)
  have le: "m \<le> k" unfolding m_def using assms by (rule Least_le)
  have mn: "\<forall>j<m. \<not> action_throws env h c j" unfolding m_def using not_less_Least by blast
  from t obtain e where "item_error env h c m = Some e"
    by (auto simp: action_throws_iff)
  with le mn show ?thesis by blast
qed

lemma await_Inr_iff [simp]: "await p = Inr v \<longleftrightarrow> p = Fulfilled v"
  by (cases p) auto

lemma await_Inl_iff [simp]: "await p = Inl e \<longleftrightarrow> p = Rejected e"
  by (cases p) auto

lemma filter_item_trace [simp]:
  "filter is_action (concat (map (item_trace env h r ope c) xs)) = map (\<lambda>i. EvExecuteImapAction i c) xs"
  "filter is_connect (concat (map (item_trace env h r ope c) xs)) = []"
  "filter is_logout (concat (map (item_trace env h r ope c) xs)) = []"
  "filter is_create (concat (map (item_trace env h r ope c) xs)) = []"
  by (induction xs) (auto simp: item_trace_def no_data_warning_def)

lemma filter_handle_action_error [simp]:
  "filter is_action (fst (handle_action_error env r ope e errs)) = []"
  "filter is_connect (fst (handle_action_error env r ope e errs)) = []"
  "filter is_logout (fst (handle_action_error env r ope e errs)) = []"
  "filter is_create (fst (handle_action_error env r ope e errs)) = []"
  by (auto simp: handle_action_error_def Let_def split: thrown.splits json_result.splits)

lemma filter_resolve_credentials:
  assumes "resolve_credentials env = (t, r)"
  shows "filter is_action t = []" "filter is_connect t = []" "filter is_logout t = []"
    "filter is_create t = []"
  using assms
  by (auto simp: resolve_credentials_def Let_def split: list.splits sum.splits prod.splits if_splits)

lemma filter_connect_failed [simp]:
  "filter is_action (fst (connect_failed env e)) = []"
  "filter is_connect (fst (connect_failed env e)) = []"
  "filter is_logout (fst (connect_failed env e)) = []"
  "filter is_create (fst (connect_failed env e)) = []"
  "filter is_get_credentials (fst (connect_failed env e)) = []"
  "filter reads_other_item (fst (connect_failed env e)) = []"
  by (auto simp: connect_failed_def split: sum.splits)

lemma connect_failed_filters:
  assumes "connect_failed env e = (t, e')"
  shows "filter is_action t = [] \<and> filter is_connect t = [] \<and> filter is_logout t = []
    \<and> filter is_create t = [] \<and> filter is_get_credentials t = []
    \<and> filter reads_other_item t = []"
  using filter_connect_failed[of env e] assms by simp

subsection \<open>The shape of an execution\<close>

lemma item_loop_cases:
  obtains (all) "item_loop env h r ope c n 0 acc =
      (concat (map (item_trace env h r ope c) [0..<n]), Inr (acc @ concat (map (action_items env h c) [0..<n])))"
      "\<And>j. j < n \<Longrightarrow> \<not> action_throws env h c j"
  | (stop) k e where "k < n" "item_error env h c k = Some e"
      "\<And>j. j < k \<Longrightarrow> \<not> action_throws env h c j"
      "item_loop env h r ope c n 0 acc =
        (concat (map (item_trace env h r ope c) [0..<k]) @ [EvStartErrorCatching, EvExecuteImapAction k c] @
           fst (handle_action_error env r ope e (internal_errors (executeImapAction h env k c))),
         Inl (snd (handle_action_error env r ope e (internal_errors (executeImapAction h env k c)))))"
proof (cases "\<exists>k<n. action_throws env h c k")
  case False
  then have nt: "\<And>j. j < n \<Longrightarrow> \<not> action_throws env h c j" by blast
  then have "item_loop env h r ope c n 0 acc =
      (concat (map (item_trace env h r ope c) [0..<n]), Inr (acc @ concat (map (action_items env h c) [0..<n])))"
    by (intro item_loop_no_throw) auto
  then show ?thesis using nt by (rule all)
next
  case True
  then obtain k where k: "k < n" "action_throws env h c k" by blast
  from first_throw_exists[OF k(2)]
  obtain m e where m: "m \<le> k" "item_error env h c m = Some e"
      "\<And>j. j < m \<Longrightarrow> \<not> action_throws env h c j"
    by blast
  have mn: "m < n" using m(1) k(1) by simp
  have "item_loop env h r ope c n 0 acc =
        (concat (map (item_trace env h r ope c) [0..<m]) @ [EvStartErrorCatching, EvExecuteImapAction m c] @
           fst (handle_action_error env r ope e (internal_errors (executeImapAction h env m c))),
         Inl (snd (handle_action_error env r ope e (internal_errors (executeImapAction h env m c)))))"
    using mn m(2) m(3) by (intro item_loop_first_throw) auto
  with mn m(2) m(3) show ?thesis by (rule stop)
qed

lemma filter_item_loop [simp]:
  "filter is_connect (fst (item_loop env h r ope c n 0 acc)) = []"
  "filter is_logout (fst (item_loop env h r ope c n 0 acc)) = []"
  "filter is_create (fst (item_loop env h r ope c n 0 acc)) = []"
  by (cases rule: item_loop_cases[of env h r ope c n acc]; simp)+

lemma run_operation_fst:
  "fst (run_operation defs env client) =
     [EvGetNodeParameter ''resource'' 0, EvGetNodeParameter ''operation'' 0] @
     (case find_handler defs (getNodeParameter env ''resource'' 0)
             (getNodeParameter env ''operation'' 0) of
        Some handler \<Rightarrow>
          EvGetInputData #
          fst (item_loop env handler (getNodeParameter env ''resource'' 0)
                 (getNodeParameter env ''operation'' 0) client (length (getInputData env)) 0 [])
      | None \<Rightarrow>
          [EvLog LogError (''Unknown operation '' @ quoted (getNodeParameter env ''operation'' 0) @
             '' for resource '' @ quoted (getNodeParameter env ''resource'' 0))])"
  by (simp add: run_operation_def Let_def split: option.splits prod.splits sum.splits)

lemma filter_run_operation [simp]:
  "filter is_connect (fst (run_operation defs env client)) = []"
  "filter is_logout (fst (run_operation defs env client)) = []"
  "filter is_create (fst (run_operation defs env client)) = []"
  by (simp_all add: run_operation_fst split: option.splits)

text \<open>
  What the \<open>catch\<close> of an item throws is an object: the last \<open>catch\<close> of \<open>execute\<close>
  reads its message without a throw.
\<close>

lemma error_message_handle_action_error:
  "\<exists>m. error_message (snd (handle_action_error env r ope e errs)) = Inr m"
  by (cases e)
     (auto simp: handle_action_error_def Let_def TypeError_def cannot_read_def new_NodeApiError_def
           split: json_result.splits)

lemma error_message_item_loop:
  assumes "snd (item_loop env h r ope c n 0 acc) = Inl e"
  shows "\<exists>m. error_message e = Inr m"
proof (cases rule: item_loop_cases[of env h r ope c n acc])
  case all
  then show ?thesis using assms by simp
next
  case (stop k e')
  then have "e = snd (handle_action_error env r ope e' (internal_errors (executeImapAction h env k c)))"
    using assms by simp
  then show ?thesis using error_message_handle_action_error by blast
qed

lemma error_message_run_operation:
  assumes "snd (run_operation defs env client) = Inl e"
  shows "\<exists>m. error_message e = Inr m"
proof (cases "find_handler defs (getNodeParameter env ''resource'' 0)
                (getNodeParameter env ''operation'' 0)")
  case None
  then show ?thesis using assms
    by (auto simp: run_operation_def Let_def new_NodeApiError_def)
next
  case (Some handler)
  then have "snd (item_loop env handler (getNodeParameter env ''resource'' 0)
                 (getNodeParameter env ''operation'' 0) client (length (getInputData env)) 0 []) = Inl e"
    using assms by (auto simp: run_operation_def Let_def split: prod.splits sum.splits)
  then show ?thesis by (rule error_message_item_loop)
qed

lemma open_connection_Inr:
  assumes "open_connection env = (t, Inr client)"
  obtains t0 source credentials where
    "resolve_credentials env = (t0, Inr (source, credentials))"
    "createImapClient env credentials = Inr client"
    "connect env client = Fulfilled ()"
    "t = t0 @ [EvCreateImapClient credentials, EvConnect client]"
  using assms
  by (auto simp: open_connection_def split: prod.splits sum.splits promise.splits)

lemma open_connection_Inl:
  assumes "open_connection env = (t, Inl e)"
  shows "filter is_logout t = []" and "length (filter is_connect t) \<le> 1" and "filter is_action t = []"
  using assms
  by (auto simp: open_connection_def split: prod.splits sum.splits promise.splits
           dest: filter_resolve_credentials dest!: connect_failed_filters)

lemma execute_not_connected:
  "open_connection env = (t, Inl e) \<Longrightarrow> execute defs env = (t, Inl e)"
  by (simp add: execute_def)

lemma execute_connected:
  assumes "open_connection env = (t, Inr client)"
  shows "\<exists>level text. fst (execute defs env) =
           t @ fst (run_operation defs env client) @ [EvLogout client, EvLog level text]"
    and "snd (execute defs env) = snd (run_operation defs env client)"
proof -
  obtain t' r where run: "run_operation defs env client = (t', r)"
    by (cases "run_operation defs env client")
  show "\<exists>level text. fst (execute defs env) =
           t @ fst (run_operation defs env client) @ [EvLogout client, EvLog level text]"
  proof (cases r)
    case (Inr resultBranches)
    then show ?thesis using assms run by (simp add: execute_def unawaited_def)
  next
    case (Inl error)
    then obtain m where "error_message error = Inr m"
      using error_message_run_operation[of defs env client error] run by auto
    then show ?thesis using assms run Inl
      by (simp add: execute_def unawaited_def operation_failed_def)
  qed
  show "snd (execute defs env) = snd (run_operation defs env client)"
  proof (cases r)
    case (Inr resultBranches)
    then show ?thesis using assms run by (simp add: execute_def unawaited_def)
  next
    case (Inl error)
    then obtain m where "error_message error = Inr m"
      using error_message_run_operation[of defs env client error] run by auto
    then show ?thesis using assms run Inl
      by (simp add: execute_def unawaited_def operation_failed_def)
  qed
qed

subsection \<open>Credentials\<close>

lemma resolve_from_input:
  assumes "getNodeParameter env ''authentication'' 0 = ''fromInput''"
  shows "snd (resolve_credentials env) =
     (if getInputData env = [] then Inl (new_NodeApiError env ''No input items provided'' None)
      else if \<not> truthy (credentials_field_value env) then
        Inl (new_NodeApiError env (''No credentials found in field '' @
               quoted (getNodeParameter env ''credentialsField'' 0)) None)
      else if \<not> truthy (js_get (credentials_field_value env) ''host'')
            \<or> \<not> truthy (js_get (credentials_field_value env) ''user'')
            \<or> \<not> truthy (js_get (credentials_field_value env) ''password'') then
        Inl (new_NodeApiError env
               ''Credentials must contain at least host, user, and password fields'' None)
      else Inr (FromInputItem, extract_credentials (credentials_field_value env)))"
    and "EvGetImapCredentials \<notin> set (fst (resolve_credentials env))"
  using assms
  by (auto simp: resolve_credentials_def credentials_field_value_def Let_def
        CREDENTIALS_TYPE_FROM_INPUT_def simp del: js_get.simps split: list.splits)

lemma resolve_from_store:
  assumes "getNodeParameter env ''authentication'' 0 \<noteq> ''fromInput''"
  shows "resolve_credentials env =
     ([EvGetNodeParameter ''authentication'' 0, EvGetImapCredentials],
      case getImapCredentials env of
        Rejected e \<Rightarrow> Inl e
      | Fulfilled (store, credentials) \<Rightarrow> Inr (FromStore store, credentials))"
  using assms
  by (auto simp: resolve_credentials_def Let_def CREDENTIALS_TYPE_FROM_INPUT_def
        split: promise.splits sum.splits prod.splits)

lemma open_connection_filter_create:
  "filter is_create (fst (open_connection env)) =
     (case snd (resolve_credentials env) of
        Inl e \<Rightarrow> []
      | Inr (source, credentials) \<Rightarrow> [EvCreateImapClient credentials])"
  by (auto simp: open_connection_def split: prod.splits sum.splits promise.splits
        dest: filter_resolve_credentials dest!: connect_failed_filters)

lemma open_connection_filter_connect:
  "filter is_connect (fst (open_connection env)) =
     (case snd (resolve_credentials env) of
        Inl e \<Rightarrow> []
      | Inr (source, credentials) \<Rightarrow>
          (case createImapClient env credentials of
             Inl e \<Rightarrow> []
           | Inr client \<Rightarrow> [EvConnect client]))"
  by (auto simp: open_connection_def split: prod.splits sum.splits promise.splits
        dest: filter_resolve_credentials dest!: connect_failed_filters)

lemma execute_filter_open:
  "filter is_create (fst (execute defs env)) = filter is_create (fst (open_connection env))"
  "filter is_connect (fst (execute defs env)) = filter is_connect (fst (open_connection env))"
proof -
  obtain t r where o: "open_connection env = (t, r)" by (cases "open_connection env")
  show "filter is_create (fst (execute defs env)) = filter is_create (fst (open_connection env))"
  proof (cases r)
    case (Inl e)
    then show ?thesis using o by (simp add: execute_not_connected)
  next
    case (Inr client)
    then show ?thesis using o execute_connected(1)[where env = env and t = t and client = client and defs = defs] by auto
  qed
  show "filter is_connect (fst (execute defs env)) = filter is_connect (fst (open_connection env))"
  proof (cases r)
    case (Inl e)
    then show ?thesis using o by (simp add: execute_not_connected)
  next
    case (Inr client)
    then show ?thesis using o execute_connected(1)[where env = env and t = t and client = client and defs = defs] by auto
  qed
qed

lemma created_iff:
  "EvCreateImapClient c \<in> set t \<longleftrightarrow> EvCreateImapClient c \<in> set (filter is_create t)"
  by simp

lemma execute_created:
  "EvCreateImapClient c \<in> set (fst (execute defs env)) \<longleftrightarrow>
     (\<exists>source. snd (resolve_credentials env) = Inr (source, c))"
proof (cases "snd (resolve_credentials env)")
  case (Inl e)
  then show ?thesis
    by (subst created_iff) (simp add: execute_filter_open open_connection_filter_create)
next
  case (Inr p)
  then show ?thesis
    by (subst created_iff, cases p)
       (auto simp: execute_filter_open open_connection_filter_create)
qed

lemma filter_resolve_fst [simp]:
  "filter is_action (fst (resolve_credentials env)) = []"
  "filter is_connect (fst (resolve_credentials env)) = []"
  "filter is_logout (fst (resolve_credentials env)) = []"
  "filter is_create (fst (resolve_credentials env)) = []"
  by (cases "resolve_credentials env"; simp add: filter_resolve_credentials)+




lemma filter_get_credentials [simp]:
  "filter is_get_credentials (concat (map (item_trace env h r ope c) xs)) = []"
  "filter is_get_credentials (fst (handle_action_error env r ope e errs)) = []"
  by (induction xs)
     (auto simp: item_trace_def no_data_warning_def handle_action_error_def Let_def
           split: thrown.splits json_result.splits)

lemma filter_get_credentials_loop [simp]:
  "filter is_get_credentials (fst (item_loop env h r ope c n 0 acc)) = []"
  by (cases rule: item_loop_cases[of env h r ope c n acc]; simp)

lemma filter_get_credentials_run [simp]:
  "filter is_get_credentials (fst (run_operation defs env client)) = []"
  by (simp add: run_operation_fst split: option.splits)

lemma filter_get_credentials_open:
  "filter is_get_credentials (fst (open_connection env)) =
   filter is_get_credentials (fst (resolve_credentials env))"
  by (auto simp: open_connection_def split: prod.splits sum.splits promise.splits
        dest!: connect_failed_filters)

lemma filter_get_credentials_execute:
  "filter is_get_credentials (fst (execute defs env)) =
   filter is_get_credentials (fst (resolve_credentials env))"
proof (cases "open_connection env")
  case (Pair t r)
  show ?thesis
  proof (cases r)
    case (Inl e)
    then show ?thesis using Pair filter_get_credentials_open[of env]
      by (simp add: execute_not_connected)
  next
    case (Inr client)
    with Pair have o: "open_connection env = (t, Inr client)" by simp
    then show ?thesis using execute_connected(1)[OF o, where defs = defs] filter_get_credentials_open[of env]
      by auto
  qed
qed

text \<open>
  C3. The credentials of an execution come from one source, chosen by the
  \<open>authentication\<close> parameter at item index 0. When it is \<open>fromInput\<close>,
  \<open>getImapCredentials\<close> is never called and the credentials are the record extracted from
  the credentials field of the first input item, whatever the stores hold. Otherwise
  \<open>getImapCredentials\<close> is called once and the credentials are the record it returns,
  from the host store or the node-local store, whatever the input items hold. The client
  is created at most once, from that record.
\<close>

theorem credential_source:
  "(getNodeParameter env ''authentication'' 0 = ''fromInput'' \<longrightarrow>
       filter is_get_credentials (fst (execute defs env)) = []
     \<and> (\<forall>source c. snd (resolve_credentials env) = Inr (source, c) \<longrightarrow>
          source = FromInputItem \<and> c = extract_credentials (credentials_field_value env))
     \<and> resolve_credentials (env\<lparr> getImapCredentials := stored \<rparr>) = resolve_credentials env)
   \<and> (getNodeParameter env ''authentication'' 0 \<noteq> ''fromInput'' \<longrightarrow>
       filter is_get_credentials (fst (execute defs env)) = [EvGetImapCredentials]
     \<and> (\<forall>source c. snd (resolve_credentials env) = Inr (source, c) \<longrightarrow>
          (\<exists>store. source = FromStore store \<and> getImapCredentials env = Fulfilled (store, c)))
     \<and> resolve_credentials (env\<lparr> getInputData := items \<rparr>) = resolve_credentials env)
   \<and> (\<forall>c. EvCreateImapClient c \<in> set (fst (execute defs env)) \<longrightarrow>
         filter is_create (fst (execute defs env)) = [EvCreateImapClient c]
       \<and> (\<exists>source. snd (resolve_credentials env) = Inr (source, c)))"
proof (intro conjI impI allI)
  assume a: "getNodeParameter env ''authentication'' 0 = ''fromInput''"
  show "filter is_get_credentials (fst (execute defs env)) = []"
    using resolve_from_input(2)[OF a]
    by (simp add: filter_get_credentials_execute filter_empty_conv)
       (metis is_get_credentials.elims(2))
  show "resolve_credentials (env\<lparr> getImapCredentials := stored \<rparr>) = resolve_credentials env"
    using a by (simp add: resolve_credentials_def CREDENTIALS_TYPE_FROM_INPUT_def Let_def
                  new_NodeApiError_def del: js_get.simps split: list.splits)
  fix source c assume "snd (resolve_credentials env) = Inr (source, c)"
  then show "source = FromInputItem" "c = extract_credentials (credentials_field_value env)"
    using resolve_from_input(1)[OF a] by (auto split: if_splits)
next
  assume a: "getNodeParameter env ''authentication'' 0 \<noteq> ''fromInput''"
  show "filter is_get_credentials (fst (execute defs env)) = [EvGetImapCredentials]"
    by (simp add: filter_get_credentials_execute resolve_from_store[OF a])
  show "resolve_credentials (env\<lparr> getInputData := items \<rparr>) = resolve_credentials env"
    using a by (simp add: resolve_credentials_def CREDENTIALS_TYPE_FROM_INPUT_def Let_def
                  new_NodeApiError_def del: js_get.simps split: list.splits)
  fix source c assume "snd (resolve_credentials env) = Inr (source, c)"
  then show "\<exists>store. source = FromStore store \<and> getImapCredentials env = Fulfilled (store, c)"
    by (auto simp: resolve_from_store[OF a] split: promise.splits)
next
  fix c assume c: "EvCreateImapClient c \<in> set (fst (execute defs env))"
  then show "\<exists>source. snd (resolve_credentials env) = Inr (source, c)"
    by (simp add: execute_created)
  then show "filter is_create (fst (execute defs env)) = [EvCreateImapClient c]"
    by (auto simp: execute_filter_open open_connection_filter_create)
qed

theorem credential_source_witness:
  "getNodeParameter sample_env ''authentication'' 0 = ''fromInput''
   \<and> filter is_get_credentials (fst (execute sample_table sample_env)) = []
   \<and> snd (resolve_credentials sample_env) =
       Inr (FromInputItem, extract_credentials (credentials_field_value sample_env))
   \<and> getNodeParameter store_env ''authentication'' 0 \<noteq> ''fromInput''
   \<and> filter is_get_credentials (fst (execute sample_table store_env)) = [EvGetImapCredentials]
   \<and> snd (resolve_credentials store_env) = Inr (FromStore NodeLocalCredentialStore, stored_credentials)
   \<and> getImapCredentials store_env = Fulfilled (NodeLocalCredentialStore, stored_credentials)
   \<and> filter is_create (fst (execute sample_table store_env)) = [EvCreateImapClient stored_credentials]"
proof -
  have a: "getNodeParameter sample_env ''authentication'' 0 = ''fromInput''"
    by (simp add: sample_defs)
  have b: "getNodeParameter store_env ''authentication'' 0 \<noteq> ''fromInput''"
    by (simp add: sample_defs)
  have c: "snd (resolve_credentials store_env) = Inr (FromStore NodeLocalCredentialStore, stored_credentials)"
    by (simp add: resolve_credentials_def CREDENTIALS_TYPE_FROM_INPUT_def store_env_def sample_env_def)
  have d: "snd (resolve_credentials sample_env) =
       Inr (FromInputItem, extract_credentials (credentials_field_value sample_env))"
    by (simp add: model_defs sample_defs)
  have e: "EvCreateImapClient stored_credentials \<in> set (fst (execute sample_table store_env))"
    using c by (auto simp: execute_created)
  from credential_source[where env = sample_env and defs = sample_table] a
  have f: "filter is_get_credentials (fst (execute sample_table sample_env)) = []" by blast
  from credential_source[where env = store_env and defs = sample_table] b e
  have g: "filter is_get_credentials (fst (execute sample_table store_env)) = [EvGetImapCredentials]"
    and h: "filter is_create (fst (execute sample_table store_env)) = [EvCreateImapClient stored_credentials]"
    by blast+
  have i: "getImapCredentials store_env = Fulfilled (NodeLocalCredentialStore, stored_credentials)"
    by (simp add: store_env_def sample_env_def)
  from a b c d f g h i show ?thesis by simp
qed

text \<open>
  C6. The record built from an input item holds the six fields \<open>host\<close>, \<open>port\<close>,
  \<open>user\<close>, \<open>password\<close>, \<open>tls\<close> and \<open>allowUnauthorizedCerts\<close>, each from the field of
  that name in the credentials field; two inputs that agree on these six fields give the
  same record, so no other field of the input reaches it. Every record a client is
  created from is made of these six fields.
\<close>

theorem credentials_record:
  "(\<forall>c. getNodeParameter env ''authentication'' 0 = ''fromInput''
        \<and> EvCreateImapClient c \<in> set (fst (execute defs env)) \<longrightarrow>
        c = \<lparr> host = js_get (credentials_field_value env) ''host'',
              port = js_or (js_get (credentials_field_value env) ''port'') (JNumber 993),
              user = js_get (credentials_field_value env) ''user'',
              password = js_get (credentials_field_value env) ''password'',
              tls = (js_get (credentials_field_value env) ''tls'' \<noteq> JBool False),
              allowUnauthorizedCerts =
                (js_get (credentials_field_value env) ''allowUnauthorizedCerts'' = JBool True) \<rparr>)
   \<and> ((\<forall>k \<in> set credential_fields. js_get a k = js_get b k) \<longrightarrow>
        extract_credentials a = extract_credentials b)
   \<and> (\<forall>c. EvCreateImapClient c \<in> set (fst (execute defs env)) \<longrightarrow>
        c = \<lparr> host = host c, port = port c, user = user c, password = password c,
              tls = tls c, allowUnauthorizedCerts = allowUnauthorizedCerts c \<rparr>)"
proof (intro conjI impI allI)
  fix c assume "getNodeParameter env ''authentication'' 0 = ''fromInput''
        \<and> EvCreateImapClient c \<in> set (fst (execute defs env))"
  then have a: "getNodeParameter env ''authentication'' 0 = ''fromInput''"
    and "\<exists>source. snd (resolve_credentials env) = Inr (source, c)"
    by (simp_all add: execute_created)
  then have "c = extract_credentials (credentials_field_value env)"
    using resolve_from_input(1)[OF a] by (auto split: if_splits)
  then show "c = \<lparr> host = js_get (credentials_field_value env) ''host'',
              port = js_or (js_get (credentials_field_value env) ''port'') (JNumber 993),
              user = js_get (credentials_field_value env) ''user'',
              password = js_get (credentials_field_value env) ''password'',
              tls = (js_get (credentials_field_value env) ''tls'' \<noteq> JBool False),
              allowUnauthorizedCerts =
                (js_get (credentials_field_value env) ''allowUnauthorizedCerts'' = JBool True) \<rparr>"
    by (simp add: extract_credentials_def)
next
  assume "\<forall>k \<in> set credential_fields. js_get a k = js_get b k"
  then show "extract_credentials a = extract_credentials b"
    by (simp add: extract_credentials_def credential_fields_def)
next
  fix c :: ImapCredentialsData
  show "c = \<lparr> host = host c, port = port c, user = user c, password = password c,
              tls = tls c, allowUnauthorizedCerts = allowUnauthorizedCerts c \<rparr>"
    by simp
qed

theorem credentials_record_witness:
  "getNodeParameter sample_env ''authentication'' 0 = ''fromInput''
   \<and> EvCreateImapClient
        \<lparr> host = JString ''imap.example.org'', port = JNumber 993, user = JString ''alice'',
          password = JString ''secret'', tls = False, allowUnauthorizedCerts = False \<rparr>
       \<in> set (fst (execute sample_table sample_env))
   \<and> extract_credentials sample_credentials =
       extract_credentials (JObject [(''host'', JString ''imap.example.org''),
          (''user'', JString ''alice''), (''password'', JString ''secret''), (''tls'', JBool False)])"
proof -
  have a: "getNodeParameter sample_env ''authentication'' 0 = ''fromInput''"
    by (simp add: sample_defs)
  have b: "EvCreateImapClient (extract_credentials (credentials_field_value sample_env))
       \<in> set (fst (execute sample_table sample_env))"
    by (simp add: execute_created resolve_credentials_def extract_credentials_def
          credentials_field_value_def CREDENTIALS_TYPE_FROM_INPUT_def js_or_def sample_defs)
  have c: "\<forall>k \<in> set credential_fields. js_get sample_credentials k =
       js_get (JObject [(''host'', JString ''imap.example.org''),
          (''user'', JString ''alice''), (''password'', JString ''secret''), (''tls'', JBool False)]) k"
    by (simp add: credential_fields_def sample_credentials_def)
  have d: "extract_credentials (credentials_field_value sample_env) =
        \<lparr> host = JString ''imap.example.org'', port = JNumber 993, user = JString ''alice'',
          password = JString ''secret'', tls = False, allowUnauthorizedCerts = False \<rparr>"
    by (simp add: model_defs sample_defs)
  from credentials_record[where env = sample_env and defs = sample_table and a = sample_credentials and b = "JObject [(''host'', JString ''imap.example.org''),
          (''user'', JString ''alice''), (''password'', JString ''secret''), (''tls'', JBool False)]"] c
  have e: "extract_credentials sample_credentials =
       extract_credentials (JObject [(''host'', JString ''imap.example.org''),
          (''user'', JString ''alice''), (''password'', JString ''secret''), (''tls'', JBool False)])"
    by blast
  from a b d e show ?thesis by simp
qed

subsection \<open>The connection\<close>

lemma execute_filter_logout:
  "filter is_logout (fst (execute defs env)) =
     (case snd (open_connection env) of Inl e \<Rightarrow> [] | Inr client \<Rightarrow> [EvLogout client])"
proof (cases "open_connection env")
  case (Pair t r)
  show ?thesis
  proof (cases r)
    case (Inl e)
    then show ?thesis using Pair open_connection_Inl(1)[of env t e]
      by (simp add: execute_not_connected)
  next
    case (Inr client)
    with Pair have o: "open_connection env = (t, Inr client)" by simp
    from o obtain t0 source credentials where
      "resolve_credentials env = (t0, Inr (source, credentials))"
      "t = t0 @ [EvCreateImapClient credentials, EvConnect client]"
      by (rule open_connection_Inr)
    then have "filter is_logout t = []" by (simp add: filter_resolve_credentials)
    then show ?thesis using o execute_connected(1)[OF o, where defs = defs] by auto
  qed
qed

lemma open_connection_connects:
  "open_connection env = (t, Inr client) \<Longrightarrow> filter is_connect t = [EvConnect client]"
  by (erule open_connection_Inr) (simp add: filter_resolve_credentials)

text \<open>
  C1, in the form that holds. \<open>connect\<close> is called at most once in an execution: once,
  when the credentials are resolved and the client is created, and not at all otherwise.
  When the connection is opened (\<open>connect\<close> succeeds), \<open>logout\<close> is called once, on the
  same client, after the operation has run, whether the operation succeeded or failed.
  When the execution fails before the connection is open (the credentials are not
  resolved, the client is not created, or \<open>connect\<close> fails), \<open>logout\<close> is not called:
  the execution ends with the trace and the error of that phase, which for a failed
  \<open>connect\<close> is the error thrown by its \<open>catch\<close>.
\<close>

theorem connection_lifecycle:
  "filter is_connect (fst (execute defs env)) =
     (case snd (resolve_credentials env) of
        Inl e \<Rightarrow> []
      | Inr (source, credentials) \<Rightarrow>
          (case createImapClient env credentials of
             Inl e \<Rightarrow> []
           | Inr client \<Rightarrow> [EvConnect client]))
   \<and> length (filter is_connect (fst (execute defs env))) \<le> 1
   \<and> (\<forall>t client. open_connection env = (t, Inr client) \<longrightarrow>
         filter is_connect (fst (execute defs env)) = [EvConnect client]
       \<and> filter is_logout (fst (execute defs env)) = [EvLogout client]
       \<and> (\<exists>level text. fst (execute defs env) =
             t @ fst (run_operation defs env client) @ [EvLogout client, EvLog level text]))
   \<and> (\<forall>t e. open_connection env = (t, Inl e) \<longrightarrow>
         filter is_logout (fst (execute defs env)) = [] \<and> execute defs env = (t, Inl e))
   \<and> (\<forall>source credentials client e.
         snd (resolve_credentials env) = Inr (source, credentials)
         \<and> createImapClient env credentials = Inr client
         \<and> connect env client = Rejected e \<longrightarrow>
         filter is_connect (fst (execute defs env)) = [EvConnect client]
       \<and> filter is_logout (fst (execute defs env)) = []
       \<and> snd (execute defs env) = Inl (snd (connect_failed env e)))"
proof (intro conjI allI impI)
  show "filter is_connect (fst (execute defs env)) =
     (case snd (resolve_credentials env) of
        Inl e \<Rightarrow> []
      | Inr (source, credentials) \<Rightarrow>
          (case createImapClient env credentials of
             Inl e \<Rightarrow> []
           | Inr client \<Rightarrow> [EvConnect client]))"
    by (simp add: execute_filter_open open_connection_filter_connect)
  show "length (filter is_connect (fst (execute defs env))) \<le> 1"
    by (simp add: execute_filter_open open_connection_filter_connect split: sum.splits prod.splits)
next
  fix t client assume o: "open_connection env = (t, Inr client)"
  show "filter is_connect (fst (execute defs env)) = [EvConnect client]"
    using open_connection_connects[OF o] o by (simp add: execute_filter_open)
  show "filter is_logout (fst (execute defs env)) = [EvLogout client]"
    using o by (simp add: execute_filter_logout)
  show "\<exists>level text. fst (execute defs env) =
             t @ fst (run_operation defs env client) @ [EvLogout client, EvLog level text]"
    using o by (rule execute_connected(1))
next
  fix t e assume o: "open_connection env = (t, Inl e)"
  show "filter is_logout (fst (execute defs env)) = []"
    using o by (simp add: execute_filter_logout)
  show "execute defs env = (t, Inl e)" using o by (rule execute_not_connected)
next
  fix source credentials client e
  assume a: "snd (resolve_credentials env) = Inr (source, credentials)
         \<and> createImapClient env credentials = Inr client
         \<and> connect env client = Rejected e"
  then have o: "snd (open_connection env) = Inl (snd (connect_failed env e))"
    by (auto simp: open_connection_def split: prod.splits sum.splits)
  then obtain t where t: "open_connection env = (t, Inl (snd (connect_failed env e)))"
    by (cases "open_connection env") simp
  show "filter is_connect (fst (execute defs env)) = [EvConnect client]"
    using a by (simp add: execute_filter_open open_connection_filter_connect)
  show "filter is_logout (fst (execute defs env)) = []"
    using o by (simp add: execute_filter_logout)
  show "snd (execute defs env) = Inl (snd (connect_failed env e))"
    using execute_not_connected[OF t] by simp
qed

theorem connection_lifecycle_witness:
  "snd (open_connection sample_env) = Inr (ImapFlow 0)
   \<and> filter is_connect (fst (execute sample_table sample_env)) = [EvConnect (ImapFlow 0)]
   \<and> filter is_logout (fst (execute sample_table sample_env)) = [EvLogout (ImapFlow 0)]
   \<and> snd (open_connection refused_env) = Inl (NodeApiError ''refused'' None)
   \<and> filter is_logout (fst (execute sample_table refused_env)) = []
   \<and> snd (execute sample_table refused_env) = Inl (NodeApiError ''refused'' None)
   \<and> connect null_rejection_env (ImapFlow 0) = Rejected ThrownNull
   \<and> filter is_connect (fst (execute sample_table null_rejection_env)) = [EvConnect (ImapFlow 0)]
   \<and> filter is_logout (fst (execute sample_table null_rejection_env)) = []
   \<and> snd (execute sample_table null_rejection_env) = Inl (cannot_read ''null'' ''message'')"
proof -
  obtain t where o: "open_connection sample_env = (t, Inr (ImapFlow 0))"
    by (simp add: model_defs sample_defs)
  obtain t' where r: "open_connection refused_env = (t', Inl (NodeApiError ''refused'' None))"
    by (simp add: model_defs sample_defs)
  from connection_lifecycle[where env = sample_env and defs = sample_table] o
  have a: "filter is_connect (fst (execute sample_table sample_env)) = [EvConnect (ImapFlow 0)]
         \<and> filter is_logout (fst (execute sample_table sample_env)) = [EvLogout (ImapFlow 0)]"
    by blast
  from connection_lifecycle[where env = refused_env and defs = sample_table] r
  have b: "filter is_logout (fst (execute sample_table refused_env)) = []
         \<and> execute sample_table refused_env = (t', Inl (NodeApiError ''refused'' None))"
    by blast
  from b have b': "snd (execute sample_table refused_env) = Inl (NodeApiError ''refused'' None)" by simp
  note b'' = b[THEN conjunct1]
  have n: "snd (resolve_credentials null_rejection_env) =
             Inr (FromInputItem, extract_credentials sample_credentials)
         \<and> createImapClient null_rejection_env (extract_credentials sample_credentials) = Inr (ImapFlow 0)
         \<and> connect null_rejection_env (ImapFlow 0) = Rejected ThrownNull"
    by (simp add: resolve_credentials_def CREDENTIALS_TYPE_FROM_INPUT_def extract_credentials_def
          js_or_def sample_defs)
  from connection_lifecycle[where env = null_rejection_env and defs = sample_table] n
  have c: "filter is_connect (fst (execute sample_table null_rejection_env)) = [EvConnect (ImapFlow 0)]
       \<and> filter is_logout (fst (execute sample_table null_rejection_env)) = []
       \<and> snd (execute sample_table null_rejection_env) =
           Inl (snd (connect_failed null_rejection_env ThrownNull))"
    by blast
  have d: "snd (connect_failed null_rejection_env ThrownNull) = cannot_read ''null'' ''message''"
    by (simp add: connect_failed_def)
  from a b' b'' c n o r show ?thesis by (simp add: d)
qed

text \<open>
  C1 does not hold of every execution and of every failure path: an execution without
  input items throws before \<open>connect\<close> is called at all, and an execution whose
  \<open>connect\<close> is refused fails without a call of \<open>logout\<close>.
\<close>

theorem connection_lifecycle_counterexample:
  "execute sample_table no_items_env =
     ([EvGetNodeParameter ''authentication'' 0, EvGetInputData],
      Inl (NodeApiError ''No input items provided'' None))
   \<and> filter is_connect (fst (execute sample_table no_items_env)) = []
   \<and> filter is_logout (fst (execute sample_table no_items_env)) = []
   \<and> execute sample_table refused_env =
     ([EvGetNodeParameter ''authentication'' 0, EvGetInputData,
       EvGetNodeParameter ''credentialsField'' 0,
       EvCreateImapClient (extract_credentials sample_credentials), EvConnect (ImapFlow 0),
       EvLog LogError ''Connection failed: refused''],
      Inl (NodeApiError ''refused'' None))
   \<and> filter is_connect (fst (execute sample_table refused_env)) = [EvConnect (ImapFlow 0)]
   \<and> filter is_logout (fst (execute sample_table refused_env)) = []"
  by (simp add: model_defs sample_defs)

subsection \<open>The credential test hook\<close>




subsection \<open>The operation\<close>

lemma filter_reads_other_item [simp]:
  "filter reads_other_item (concat (map (item_trace env h r ope c) xs)) = []"
  "filter reads_other_item (fst (handle_action_error env r ope e errs)) = []"
  by (induction xs)
     (auto simp: item_trace_def no_data_warning_def handle_action_error_def Let_def
           split: thrown.splits json_result.splits)

lemma filter_reads_other_item_loop [simp]:
  "filter reads_other_item (fst (item_loop env h r ope c n 0 acc)) = []"
  by (cases rule: item_loop_cases[of env h r ope c n acc]; simp)

lemma filter_reads_other_item_run [simp]:
  "filter reads_other_item (fst (run_operation defs env client)) = []"
  by (simp add: run_operation_fst split: option.splits)

lemma filter_reads_other_item_resolve [simp]:
  "filter reads_other_item (fst (resolve_credentials env)) = []"
  by (auto simp: resolve_credentials_def Let_def split: list.splits sum.splits prod.splits)

lemma open_connection_fst:
  "fst (open_connection env) =
     fst (resolve_credentials env) @
     (case snd (resolve_credentials env) of
        Inl e \<Rightarrow> []
      | Inr (source, credentials) \<Rightarrow>
          EvCreateImapClient credentials #
          (case createImapClient env credentials of
             Inl e \<Rightarrow> []
           | Inr client \<Rightarrow>
               EvConnect client #
               (case connect env client of
                  Rejected error \<Rightarrow> fst (connect_failed env error)
                | Fulfilled connected \<Rightarrow> [])))"
  by (simp add: open_connection_def split: prod.splits sum.splits promise.splits)

lemma execute_fst:
  "fst (execute defs env) =
     fst (open_connection env) @
     (case snd (open_connection env) of
        Inl e \<Rightarrow> []
      | Inr client \<Rightarrow>
          fst (run_operation defs env client) @
          [EvLogout client,
           EvLog
             (case snd (run_operation defs env client) of
                Inr resultBranches \<Rightarrow> LogInfo | Inl error \<Rightarrow> LogError)
             (case snd (run_operation defs env client) of
                Inr resultBranches \<Rightarrow> ''IMAP connection closed''
              | Inl error \<Rightarrow>
                  ''IMAP connection closed. Error: '' @
                  (case error_message error of Inr text \<Rightarrow> template text | Inl typeError \<Rightarrow> []))])"
proof (cases "open_connection env")
  case (Pair t r)
  show ?thesis
  proof (cases r)
    case (Inl e)
    then show ?thesis using Pair by (simp add: execute_def)
  next
    case (Inr client)
    obtain t' r' where run: "run_operation defs env client = (t', r')"
      by (cases "run_operation defs env client")
    show ?thesis
    proof (cases r')
      case (Inr resultBranches)
      then show ?thesis using Pair \<open>r = Inr client\<close> run by (simp add: execute_def unawaited_def)
    next
      case (Inl error)
      then obtain m where "error_message error = Inr m"
        using error_message_run_operation[of defs env client error] run by auto
      then show ?thesis using Pair \<open>r = Inr client\<close> run Inl
        by (simp add: execute_def unawaited_def operation_failed_def)
    qed
  qed
qed

lemma filter_reads_other_item_execute:
  "filter reads_other_item (fst (execute defs env)) = []"
  by (simp add: execute_fst open_connection_fst split: prod.splits sum.splits promise.splits)

lemma run_operation_unknown:
  assumes "find_handler defs (getNodeParameter env ''resource'' 0)
             (getNodeParameter env ''operation'' 0) = None"
  shows "run_operation defs env client =
     ([EvGetNodeParameter ''resource'' 0, EvGetNodeParameter ''operation'' 0,
       EvLog LogError (''Unknown operation '' @ quoted (getNodeParameter env ''operation'' 0) @
                      '' for resource '' @ quoted (getNodeParameter env ''resource'' 0))],
      Inl (new_NodeApiError env
             (''Unknown operation '' @ quoted (getNodeParameter env ''operation'' 0) @
                      '' for resource '' @ quoted (getNodeParameter env ''resource'' 0)) None))"
  using assms by (simp add: run_operation_def Let_def)

text \<open>
  The lookup of line 215 finds no handler when no resource of that name has an operation
  of that name, and a handler it finds is an operation of that name of a resource of that
  name.
\<close>

lemma find_handler_None:
  assumes "\<forall>resourceDef \<in> set defs. resource_value resourceDef = resource \<longrightarrow>
             (\<forall>operationDef \<in> set (operationDefs resourceDef).
                operation_value operationDef \<noteq> operation)"
  shows "find_handler defs resource operation = None"
proof (cases "find (\<lambda>resourceDef. resource_value resourceDef = resource) defs")
  case None
  then show ?thesis by (simp add: find_handler_def)
next
  case (Some resourceDef)
  then have "resourceDef \<in> set defs" "resource_value resourceDef = resource"
    by (auto simp: find_Some_iff)
  then have "\<forall>operationDef \<in> set (operationDefs resourceDef).
                operation_value operationDef \<noteq> operation"
    using assms by blast
  then have "find (\<lambda>operationDef. operation_value operationDef = operation)
               (operationDefs resourceDef) = None"
    by (simp add: find_None_iff)
  then show ?thesis using Some by (simp add: find_handler_def)
qed

lemma find_handler_Some:
  assumes "find_handler defs resource operation = Some handler"
  shows "\<exists>resourceDef \<in> set defs. resource_value resourceDef = resource
           \<and> handler \<in> set (operationDefs resourceDef) \<and> operation_value handler = operation"
proof (cases "find (\<lambda>resourceDef. resource_value resourceDef = resource) defs")
  case None
  then show ?thesis using assms by (simp add: find_handler_def)
next
  case (Some resourceDef)
  then have r: "resourceDef \<in> set defs" "resource_value resourceDef = resource"
    by (auto simp: find_Some_iff)
  have "find (\<lambda>operationDef. operation_value operationDef = operation)
          (operationDefs resourceDef) = Some handler"
    using assms Some by (simp add: find_handler_def)
  then have "handler \<in> set (operationDefs resourceDef)" "operation_value handler = operation"
    by (auto simp: find_Some_iff)
  with r show ?thesis by blast
qed

lemma open_connection_filter_action [simp]:
  "filter is_action (fst (open_connection env)) = []"
  by (auto simp: open_connection_def split: prod.splits sum.splits promise.splits
        dest: filter_resolve_credentials dest!: connect_failed_filters)

lemma run_operation_found:
  assumes "find_handler defs (getNodeParameter env ''resource'' 0)
             (getNodeParameter env ''operation'' 0) = Some handler"
  shows "fst (run_operation defs env client) =
           [EvGetNodeParameter ''resource'' 0, EvGetNodeParameter ''operation'' 0, EvGetInputData] @
           fst (item_loop env handler (getNodeParameter env ''resource'' 0)
                  (getNodeParameter env ''operation'' 0) client (length (getInputData env)) 0 [])"
    and "snd (run_operation defs env client) =
           (case snd (item_loop env handler (getNodeParameter env ''resource'' 0)
                  (getNodeParameter env ''operation'' 0) client (length (getInputData env)) 0 []) of
              Inl e \<Rightarrow> Inl e
            | Inr resultItems \<Rightarrow> Inr [resultItems])"
  using assms by (simp_all add: run_operation_def Let_def split: prod.splits sum.splits)

lemma execute_actions:
  assumes "open_connection env = (t, Inr client)"
  shows "filter is_action (fst (execute defs env)) =
         filter is_action (fst (run_operation defs env client))"
  using assms open_connection_filter_action[of env] by (simp add: execute_fst)

lemma run_all:
  assumes "find_handler defs (getNodeParameter env ''resource'' 0)
             (getNodeParameter env ''operation'' 0) = Some handler"
    and "\<And>i. i < length (getInputData env) \<Longrightarrow> \<not> action_throws env handler client i"
  shows "fst (run_operation defs env client) =
           [EvGetNodeParameter ''resource'' 0, EvGetNodeParameter ''operation'' 0, EvGetInputData] @
           concat (map (item_trace env handler (getNodeParameter env ''resource'' 0)
                          (getNodeParameter env ''operation'' 0) client)
                     [0..<length (getInputData env)])"
    and "snd (run_operation defs env client) =
           Inr [concat (map (action_items env handler client) [0..<length (getInputData env)])]"
proof -
  have "item_loop env handler (getNodeParameter env ''resource'' 0)
          (getNodeParameter env ''operation'' 0) client (length (getInputData env)) 0 [] =
        (concat (map (item_trace env handler (getNodeParameter env ''resource'' 0)
                          (getNodeParameter env ''operation'' 0) client)
                     [0..<length (getInputData env)]),
         Inr ([] @ concat (map (action_items env handler client) [0..<length (getInputData env)])))"
    using assms(2) by (intro item_loop_no_throw) auto
  then show "fst (run_operation defs env client) =
           [EvGetNodeParameter ''resource'' 0, EvGetNodeParameter ''operation'' 0, EvGetInputData] @
           concat (map (item_trace env handler (getNodeParameter env ''resource'' 0)
                          (getNodeParameter env ''operation'' 0) client)
                     [0..<length (getInputData env)])"
    and "snd (run_operation defs env client) =
           Inr [concat (map (action_items env handler client) [0..<length (getInputData env)])]"
    by (simp_all add: run_operation_found[OF assms(1)])
qed

lemma run_stop:
  assumes "find_handler defs (getNodeParameter env ''resource'' 0)
             (getNodeParameter env ''operation'' 0) = Some handler"
    and "i < length (getInputData env)"
    and "item_error env handler client i = Some e"
    and "\<And>j. j < i \<Longrightarrow> \<not> action_throws env handler client j"
  shows "fst (run_operation defs env client) =
           [EvGetNodeParameter ''resource'' 0, EvGetNodeParameter ''operation'' 0, EvGetInputData] @
           concat (map (item_trace env handler (getNodeParameter env ''resource'' 0)
                          (getNodeParameter env ''operation'' 0) client) [0..<i]) @
           [EvStartErrorCatching, EvExecuteImapAction i client] @
           fst (handle_action_error env (getNodeParameter env ''resource'' 0)
                  (getNodeParameter env ''operation'' 0) e
                  (internal_errors (executeImapAction handler env i client)))"
    and "snd (run_operation defs env client) =
           Inl (snd (handle_action_error env (getNodeParameter env ''resource'' 0)
                  (getNodeParameter env ''operation'' 0) e
                  (internal_errors (executeImapAction handler env i client))))"
proof -
  have "item_loop env handler (getNodeParameter env ''resource'' 0)
          (getNodeParameter env ''operation'' 0) client (length (getInputData env)) 0 [] =
        (concat (map (item_trace env handler (getNodeParameter env ''resource'' 0)
                          (getNodeParameter env ''operation'' 0) client) [0..<i]) @
           [EvStartErrorCatching, EvExecuteImapAction i client] @
           fst (handle_action_error env (getNodeParameter env ''resource'' 0)
                  (getNodeParameter env ''operation'' 0) e
                  (internal_errors (executeImapAction handler env i client))),
         Inl (snd (handle_action_error env (getNodeParameter env ''resource'' 0)
                  (getNodeParameter env ''operation'' 0) e
                  (internal_errors (executeImapAction handler env i client)))))"
    using assms(2,3,4) by (intro item_loop_first_throw) auto
  then show "fst (run_operation defs env client) =
           [EvGetNodeParameter ''resource'' 0, EvGetNodeParameter ''operation'' 0, EvGetInputData] @
           concat (map (item_trace env handler (getNodeParameter env ''resource'' 0)
                          (getNodeParameter env ''operation'' 0) client) [0..<i]) @
           [EvStartErrorCatching, EvExecuteImapAction i client] @
           fst (handle_action_error env (getNodeParameter env ''resource'' 0)
                  (getNodeParameter env ''operation'' 0) e
                  (internal_errors (executeImapAction handler env i client)))"
    and "snd (run_operation defs env client) =
           Inl (snd (handle_action_error env (getNodeParameter env ''resource'' 0)
                  (getNodeParameter env ''operation'' 0) e
                  (internal_errors (executeImapAction handler env i client))))"
    by (simp_all add: run_operation_found[OF assms(1)])
qed

lemma run_actions_prefix:
  assumes "find_handler defs (getNodeParameter env ''resource'' 0)
             (getNodeParameter env ''operation'' 0) = Some handler"
  shows "\<exists>m\<le>length (getInputData env).
           filter is_action (fst (run_operation defs env client)) =
           map (\<lambda>i. EvExecuteImapAction i client) [0..<m]"
proof (cases "\<exists>k<length (getInputData env). action_throws env handler client k")
  case False
  then have "filter is_action (fst (run_operation defs env client)) =
           map (\<lambda>i. EvExecuteImapAction i client) [0..<length (getInputData env)]"
    by (simp add: run_all(1)[OF assms])
  then show ?thesis by blast
next
  case True
  then obtain k where k: "k < length (getInputData env)" "action_throws env handler client k"
    by blast
  from first_throw_exists[OF k(2)]
  obtain m e where m: "m \<le> k" "item_error env handler client m = Some e"
      "\<And>j. j < m \<Longrightarrow> \<not> action_throws env handler client j"
    by blast
  have mn: "m < length (getInputData env)" using m(1) k(1) by simp
  have "filter is_action (fst (run_operation defs env client)) =
           map (\<lambda>i. EvExecuteImapAction i client) [0..<Suc m]"
    by (simp add: run_stop(1)[OF assms mn m(2) m(3)])
  moreover have "Suc m \<le> length (getInputData env)" using mn by simp
  ultimately show ?thesis by blast
qed





lemma three_items_open:
  "open_connection three_items_env =
     ([EvGetNodeParameter ''authentication'' 0, EvGetInputData,
       EvGetNodeParameter ''credentialsField'' 0,
       EvCreateImapClient (extract_credentials sample_credentials), EvConnect (ImapFlow 0)],
      Inr (ImapFlow 0))"
  by (simp add: open_connection_def resolve_credentials_def credentials_field_value_def
        CREDENTIALS_TYPE_FROM_INPUT_def sample_defs extract_credentials_def js_or_def)

lemma three_items_host:
  "nodeApiErrorMessage three_items_env = (\<lambda>text. text)"
  "argumentLimit three_items_env = 100000"
  "getNodeParameter three_items_env ''resource'' 0 = ''mailbox''"
  "getNodeParameter three_items_env ''operation'' 0 = ''loadMailboxList''"
  "length (getInputData three_items_env) = 3"
  by (simp_all add: three_items_env_def sample_env_def sample_parameters_def sample_items_def)

lemma rejecting_found:
  "find_handler (rejecting_table e logged) (getNodeParameter three_items_env ''resource'' 0)
     (getNodeParameter three_items_env ''operation'' 0) = Some (rejecting_handler e logged)"
  by (simp add: find_handler_def sample_defs)

lemma rejecting_facts:
  "Suc 0 < length (getInputData three_items_env)"
  "action_result (executeImapAction (rejecting_handler e logged) three_items_env (Suc 0) (ImapFlow 0))
     = Rejected e"
  "\<forall>j<Suc 0. \<not> action_throws three_items_env (rejecting_handler e logged) (ImapFlow 0) j"
  "internal_errors (executeImapAction (rejecting_handler e logged) three_items_env (Suc 0) (ImapFlow 0))
     = logged"
  by (simp_all add: sample_defs action_throws_def item_error_def)

lemma sample_open:
  "open_connection sample_env =
     ([EvGetNodeParameter ''authentication'' 0, EvGetInputData,
       EvGetNodeParameter ''credentialsField'' 0,
       EvCreateImapClient (extract_credentials sample_credentials), EvConnect (ImapFlow 0)],
      Inr (ImapFlow 0))"
  by (simp add: open_connection_def resolve_credentials_def credentials_field_value_def
        CREDENTIALS_TYPE_FROM_INPUT_def sample_defs extract_credentials_def js_or_def)

lemma sample_found:
  "find_handler sample_table (getNodeParameter sample_env ''resource'' 0)
     (getNodeParameter sample_env ''operation'' 0) = Some sample_handler"
  by (simp add: find_handler_def sample_defs)

lemma sample_no_throw:
  "\<forall>i<length (getInputData sample_env). \<not> action_throws sample_env sample_handler (ImapFlow 0) i"
  by (simp add: sample_defs action_throws_def item_error_def)

lemma filter_warning_item_trace [simp]:
  "filter is_warning (concat (map (item_trace env h r ope c) xs)) =
     map (\<lambda>i. no_data_warning r ope)
       (filter (\<lambda>i. action_result (executeImapAction h env i c) = Fulfilled None) xs)"
  "filter is_error_log (concat (map (item_trace env h r ope c) xs)) = []"
  by (induction xs) (auto simp: item_trace_def no_data_warning_def)

lemma filter_log_resolve:
  assumes "resolve_credentials env = (t, r)"
  shows "filter is_warning t = []" "filter is_error_log t = []"
  using assms
  by (auto simp: resolve_credentials_def Let_def split: list.splits sum.splits prod.splits if_splits)

lemma open_connection_Inr_logs:
  assumes "open_connection env = (t, Inr client)"
  shows "filter is_warning t = []" "filter is_error_log t = []"
  using assms by (auto elim!: open_connection_Inr dest: filter_log_resolve)

lemma execute_Inr:
  assumes "snd (execute defs env) = Inr resultBranches"
  shows "\<exists>t client handler.
    open_connection env = (t, Inr client) \<and>
    find_handler defs (getNodeParameter env ''resource'' 0)
       (getNodeParameter env ''operation'' 0) = Some handler \<and>
    (\<forall>i<length (getInputData env). \<not> action_throws env handler client i)"
proof -
  obtain t r where o: "open_connection env = (t, r)" by (cases "open_connection env")
  show ?thesis
  proof (cases r)
    case (Inl e)
    then show ?thesis using o assms by (simp add: execute_not_connected)
  next
    case (Inr client)
    with o have oc: "open_connection env = (t, Inr client)" by simp
    have run: "snd (run_operation defs env client) = Inr resultBranches"
      using assms by (simp add: execute_connected(2)[OF oc])
    show ?thesis
    proof (cases "find_handler defs (getNodeParameter env ''resource'' 0)
       (getNodeParameter env ''operation'' 0)")
      case None
      then show ?thesis using run by (simp add: run_operation_unknown)
    next
      case (Some handler)
      have nt: "\<not> action_throws env handler client i" if "i < length (getInputData env)" for i
      proof
        assume th: "action_throws env handler client i"
        from first_throw_exists[OF th]
        obtain m e where m: "m \<le> i" "item_error env handler client m = Some e"
          "\<And>j. j < m \<Longrightarrow> \<not> action_throws env handler client j"
          by blast
        have mn: "m < length (getInputData env)" using m(1) that by simp
        show False using run by (simp add: run_stop(2)[OF Some mn m(2) m(3)])
      qed
      from oc Some nt show ?thesis by blast
    qed
  qed
qed

lemma sample_result:
  "snd (execute sample_table sample_env) = Inr [[\<lparr> json = [(''path'', JString ''INBOX'')] \<rparr>]]"
proof -
  have l: "length (getInputData sample_env) = 2"
    by (simp add: sample_env_def sample_items_def)
  have i: "concat (map (action_items sample_env sample_handler (ImapFlow 0)) [0..<2]) =
      [\<lparr> json = [(''path'', JString ''INBOX'')] \<rparr>]"
    by (simp add: action_items_def sample_handler_def upt_rec)
  have nt: "\<And>i. i < length (getInputData sample_env) \<Longrightarrow>
      \<not> action_throws sample_env sample_handler (ImapFlow 0) i"
    using sample_no_throw by blast
  have "snd (execute sample_table sample_env) =
      Inr [concat (map (action_items sample_env sample_handler (ImapFlow 0))
             [0..<length (getInputData sample_env)])]"
    by (simp only: execute_connected(2)[OF sample_open] run_all(2)[OF sample_found nt])
  then show ?thesis by (simp only: l i)
qed

text \<open>
  C10, in the form that holds. Every parameter \<open>execute\<close> reads, \<open>resource\<close> and
  \<open>operation\<close> among them, is read at item index 0. When the connection is open and no
  resource of the table with the name read there has an operation with the name read
  there, \<open>execute\<close> logs the text \<open>Unknown operation "<operation>" for resource
  "<resource>"\<close> and throws the \<open>NodeApiError\<close> that the host's class builds from this
  text, with no description: its message is this text when the class keeps it. No
  handler is called for any item, and \<open>logout\<close> is still called. When a handler is
  found, it is an operation of that name of a resource of that name, and the result of
  the execution is that of the loop run with this one handler, resource and operation
  over all the input items.
\<close>

theorem unknown_operation:
  "(\<forall>name itemIndex. EvGetNodeParameter name itemIndex \<in> set (fst (execute defs env)) \<longrightarrow>
        itemIndex = 0)
   \<and> (\<forall>t client. open_connection env = (t, Inr client)
        \<and> (\<forall>resourceDef \<in> set defs.
              resource_value resourceDef = getNodeParameter env ''resource'' 0 \<longrightarrow>
              (\<forall>operationDef \<in> set (operationDefs resourceDef).
                 operation_value operationDef \<noteq> getNodeParameter env ''operation'' 0)) \<longrightarrow>
        snd (execute defs env) =
          Inl (NodeApiError
                 (nodeApiErrorMessage env
                    (''Unknown operation '' @ [CHR 0x22] @ getNodeParameter env ''operation'' 0 @
                     [CHR 0x22] @ '' for resource '' @ [CHR 0x22] @
                     getNodeParameter env ''resource'' 0 @ [CHR 0x22]))
                 None)
      \<and> (nodeApiErrorMessage env
            (''Unknown operation '' @ [CHR 0x22] @ getNodeParameter env ''operation'' 0 @
             [CHR 0x22] @ '' for resource '' @ [CHR 0x22] @
             getNodeParameter env ''resource'' 0 @ [CHR 0x22]) =
          ''Unknown operation '' @ [CHR 0x22] @ getNodeParameter env ''operation'' 0 @
             [CHR 0x22] @ '' for resource '' @ [CHR 0x22] @
             getNodeParameter env ''resource'' 0 @ [CHR 0x22] \<longrightarrow>
          snd (execute defs env) =
            Inl (NodeApiError
                   (''Unknown operation '' @ [CHR 0x22] @ getNodeParameter env ''operation'' 0 @
                    [CHR 0x22] @ '' for resource '' @ [CHR 0x22] @
                    getNodeParameter env ''resource'' 0 @ [CHR 0x22])
                   None))
      \<and> EvLog LogError
           (''Unknown operation '' @ [CHR 0x22] @ getNodeParameter env ''operation'' 0 @
            [CHR 0x22] @ '' for resource '' @ [CHR 0x22] @
            getNodeParameter env ''resource'' 0 @ [CHR 0x22])
          \<in> set (fst (execute defs env))
      \<and> filter is_action (fst (execute defs env)) = []
      \<and> filter is_logout (fst (execute defs env)) = [EvLogout client])
   \<and> (\<forall>t client handler. open_connection env = (t, Inr client)
        \<and> find_handler defs (getNodeParameter env ''resource'' 0)
             (getNodeParameter env ''operation'' 0) = Some handler \<longrightarrow>
        (\<exists>resourceDef \<in> set defs.
            resource_value resourceDef = getNodeParameter env ''resource'' 0
          \<and> handler \<in> set (operationDefs resourceDef)
          \<and> operation_value handler = getNodeParameter env ''operation'' 0)
      \<and> snd (execute defs env) =
          (case snd (item_loop env handler (getNodeParameter env ''resource'' 0)
                       (getNodeParameter env ''operation'' 0) client
                       (length (getInputData env)) 0 []) of
             Inl e \<Rightarrow> Inl e
           | Inr resultItems \<Rightarrow> Inr [resultItems]))"
proof (intro conjI allI impI)
  fix name itemIndex
  assume "EvGetNodeParameter name itemIndex \<in> set (fst (execute defs env))"
  then have "itemIndex \<noteq> 0 \<Longrightarrow>
      EvGetNodeParameter name itemIndex \<in> set (filter reads_other_item (fst (execute defs env)))"
    by simp
  then show "itemIndex = 0" by (auto simp: filter_reads_other_item_execute)
next
  fix t client
  assume a: "open_connection env = (t, Inr client)
        \<and> (\<forall>resourceDef \<in> set defs.
              resource_value resourceDef = getNodeParameter env ''resource'' 0 \<longrightarrow>
              (\<forall>operationDef \<in> set (operationDefs resourceDef).
                 operation_value operationDef \<noteq> getNodeParameter env ''operation'' 0))"
  then have o: "open_connection env = (t, Inr client)" by simp
  have none: "find_handler defs (getNodeParameter env ''resource'' 0)
             (getNodeParameter env ''operation'' 0) = None"
    using a by (intro find_handler_None) blast
  note u = run_operation_unknown[OF none, of client]
  show thrown: "snd (execute defs env) =
          Inl (NodeApiError
                 (nodeApiErrorMessage env
                    (''Unknown operation '' @ [CHR 0x22] @ getNodeParameter env ''operation'' 0 @
                     [CHR 0x22] @ '' for resource '' @ [CHR 0x22] @
                     getNodeParameter env ''resource'' 0 @ [CHR 0x22]))
                 None)"
    by (simp add: execute_connected(2)[OF o] u new_NodeApiError_def quoted_def)
  show "snd (execute defs env) =
            Inl (NodeApiError
                   (''Unknown operation '' @ [CHR 0x22] @ getNodeParameter env ''operation'' 0 @
                    [CHR 0x22] @ '' for resource '' @ [CHR 0x22] @
                    getNodeParameter env ''resource'' 0 @ [CHR 0x22])
                   None)"
    if "nodeApiErrorMessage env
            (''Unknown operation '' @ [CHR 0x22] @ getNodeParameter env ''operation'' 0 @
             [CHR 0x22] @ '' for resource '' @ [CHR 0x22] @
             getNodeParameter env ''resource'' 0 @ [CHR 0x22]) =
          ''Unknown operation '' @ [CHR 0x22] @ getNodeParameter env ''operation'' 0 @
             [CHR 0x22] @ '' for resource '' @ [CHR 0x22] @
             getNodeParameter env ''resource'' 0 @ [CHR 0x22]"
    using thrown that by (simp only:)
  show "EvLog LogError
           (''Unknown operation '' @ [CHR 0x22] @ getNodeParameter env ''operation'' 0 @
            [CHR 0x22] @ '' for resource '' @ [CHR 0x22] @
            getNodeParameter env ''resource'' 0 @ [CHR 0x22])
          \<in> set (fst (execute defs env))"
    using o by (simp add: execute_fst u quoted_def)
  have "filter is_action t = []" using open_connection_filter_action[of env] o by simp
  then show "filter is_action (fst (execute defs env)) = []"
    using execute_connected(1)[OF o, where defs = defs] by (auto simp: u)
  show "filter is_logout (fst (execute defs env)) = [EvLogout client]"
    using o by (simp add: execute_filter_logout)
next
  fix t client handler
  assume a: "open_connection env = (t, Inr client)
        \<and> find_handler defs (getNodeParameter env ''resource'' 0)
             (getNodeParameter env ''operation'' 0) = Some handler"
  then have o: "open_connection env = (t, Inr client)" by simp
  show "\<exists>resourceDef \<in> set defs.
            resource_value resourceDef = getNodeParameter env ''resource'' 0
          \<and> handler \<in> set (operationDefs resourceDef)
          \<and> operation_value handler = getNodeParameter env ''operation'' 0"
    using a by (intro find_handler_Some) simp
  show "snd (execute defs env) =
          (case snd (item_loop env handler (getNodeParameter env ''resource'' 0)
                       (getNodeParameter env ''operation'' 0) client
                       (length (getInputData env)) 0 []) of
             Inl e \<Rightarrow> Inl e
           | Inr resultItems \<Rightarrow> Inr [resultItems])"
    by (simp only: execute_connected(2)[OF o] run_operation_found(2)[OF a[THEN conjunct2]])
qed

lemma unregistered_open:
  "open_connection unknown_operation_env =
     ([EvGetNodeParameter ''authentication'' 0, EvGetInputData,
       EvGetNodeParameter ''credentialsField'' 0,
       EvCreateImapClient (extract_credentials sample_credentials), EvConnect (ImapFlow 0)],
      Inr (ImapFlow 0))"
  "open_connection other_resource_env =
     ([EvGetNodeParameter ''authentication'' 0, EvGetInputData,
       EvGetNodeParameter ''credentialsField'' 0,
       EvCreateImapClient (extract_credentials sample_credentials), EvConnect (ImapFlow 0)],
      Inr (ImapFlow 0))"
  by (simp_all add: open_connection_def resolve_credentials_def credentials_field_value_def
        CREDENTIALS_TYPE_FROM_INPUT_def sample_defs extract_credentials_def js_or_def)

lemma unregistered_parameters:
  "getNodeParameter unknown_operation_env ''operation'' 0 = ''purge''"
  "getNodeParameter unknown_operation_env ''resource'' 0 = ''mailbox''"
  "nodeApiErrorMessage unknown_operation_env = (\<lambda>text. text)"
  "getNodeParameter other_resource_env ''operation'' 0 = ''loadMailboxList''"
  "getNodeParameter other_resource_env ''resource'' 0 = ''email''"
  "nodeApiErrorMessage other_resource_env = (\<lambda>text. text)"
  by (simp_all add: sample_defs)

theorem unknown_operation_witness:
  "snd (open_connection unknown_operation_env) = Inr (ImapFlow 0)
   \<and> sample_table = [\<lparr> resource_value = ''mailbox'', operationDefs = [sample_handler] \<rparr>]
   \<and> operation_value sample_handler = ''loadMailboxList''
   \<and> getNodeParameter unknown_operation_env ''resource'' 0 = ''mailbox''
   \<and> getNodeParameter unknown_operation_env ''operation'' 0 = ''purge''
   \<and> snd (execute sample_table unknown_operation_env) =
        Inl (NodeApiError
               (''Unknown operation '' @ [CHR 0x22] @ ''purge'' @ [CHR 0x22] @
                '' for resource '' @ [CHR 0x22] @ ''mailbox'' @ [CHR 0x22]) None)
   \<and> filter is_action (fst (execute sample_table unknown_operation_env)) = []
   \<and> filter is_logout (fst (execute sample_table unknown_operation_env)) = [EvLogout (ImapFlow 0)]
   \<and> EvGetNodeParameter ''operation'' 0 \<in> set (fst (execute sample_table unknown_operation_env))
   \<and> snd (open_connection other_resource_env) = Inr (ImapFlow 0)
   \<and> getNodeParameter other_resource_env ''resource'' 0 = ''email''
   \<and> getNodeParameter other_resource_env ''operation'' 0 = ''loadMailboxList''
   \<and> snd (execute sample_table other_resource_env) =
        Inl (NodeApiError
               (''Unknown operation '' @ [CHR 0x22] @ ''loadMailboxList'' @ [CHR 0x22] @
                '' for resource '' @ [CHR 0x22] @ ''email'' @ [CHR 0x22]) None)
   \<and> filter is_action (fst (execute sample_table other_resource_env)) = []
   \<and> snd (open_connection sample_env) = Inr (ImapFlow 0)
   \<and> find_handler sample_table (getNodeParameter sample_env ''resource'' 0)
        (getNodeParameter sample_env ''operation'' 0) = Some sample_handler
   \<and> snd (execute sample_table sample_env) =
        Inr [[\<lparr> json = [(''path'', JString ''INBOX'')] \<rparr>]]"
proof -
  note inst = unknown_operation[where defs = sample_table]
  have l: "snd (item_loop sample_env sample_handler (getNodeParameter sample_env ''resource'' 0)
              (getNodeParameter sample_env ''operation'' 0) (ImapFlow 0)
              (length (getInputData sample_env)) 0 []) =
           Inr [\<lparr> json = [(''path'', JString ''INBOX'')] \<rparr>]"
    by (simp add: item_loop.simps push_spread_def sample_defs)
  from inst[where env = sample_env, THEN conjunct2, THEN conjunct2, rule_format,
      of _ "ImapFlow 0" sample_handler] sample_open sample_found
  have "snd (execute sample_table sample_env) =
          (case snd (item_loop sample_env sample_handler (getNodeParameter sample_env ''resource'' 0)
                       (getNodeParameter sample_env ''operation'' 0) (ImapFlow 0)
                       (length (getInputData sample_env)) 0 []) of
             Inl e \<Rightarrow> Inl e
           | Inr resultItems \<Rightarrow> Inr [resultItems])"
    by blast
  then have s: "snd (execute sample_table sample_env) =
        Inr [[\<lparr> json = [(''path'', JString ''INBOX'')] \<rparr>]]"
    by (simp only: l sum.case)
  have so: "snd (open_connection sample_env) = Inr (ImapFlow 0)"
    by (simp add: sample_open)
  have tab: "sample_table = [\<lparr> resource_value = ''mailbox'', operationDefs = [sample_handler] \<rparr>]"
    "operation_value sample_handler = ''loadMailboxList''"
    by (simp_all add: sample_table_def sample_handler_def)
  have no1: "\<forall>resourceDef \<in> set sample_table.
              resource_value resourceDef = getNodeParameter unknown_operation_env ''resource'' 0 \<longrightarrow>
              (\<forall>operationDef \<in> set (operationDefs resourceDef).
                 operation_value operationDef \<noteq> getNodeParameter unknown_operation_env ''operation'' 0)"
    by (simp add: tab unregistered_parameters)
  have no2: "\<forall>resourceDef \<in> set sample_table.
              resource_value resourceDef = getNodeParameter other_resource_env ''resource'' 0 \<longrightarrow>
              (\<forall>operationDef \<in> set (operationDefs resourceDef).
                 operation_value operationDef \<noteq> getNodeParameter other_resource_env ''operation'' 0)"
    by (simp add: tab unregistered_parameters)
  from inst[where env = unknown_operation_env, THEN conjunct2, THEN conjunct1, rule_format,
      OF conjI, OF unregistered_open(1) no1]
  have u: "snd (execute sample_table unknown_operation_env) =
        Inl (NodeApiError
               (''Unknown operation '' @ [CHR 0x22] @ ''purge'' @ [CHR 0x22] @
                '' for resource '' @ [CHR 0x22] @ ''mailbox'' @ [CHR 0x22]) None)"
    and u': "filter is_action (fst (execute sample_table unknown_operation_env)) = []"
      "filter is_logout (fst (execute sample_table unknown_operation_env)) = [EvLogout (ImapFlow 0)]"
    by (simp_all add: unregistered_parameters)
  have m: "EvGetNodeParameter ''operation'' 0 \<in> set (fst (execute sample_table unknown_operation_env))"
    by (simp add: execute_fst unregistered_open run_operation_fst)
  from inst[where env = other_resource_env, THEN conjunct2, THEN conjunct1, rule_format,
      OF conjI, OF unregistered_open(2) no2]
  have v: "snd (execute sample_table other_resource_env) =
        Inl (NodeApiError
               (''Unknown operation '' @ [CHR 0x22] @ ''loadMailboxList'' @ [CHR 0x22] @
                '' for resource '' @ [CHR 0x22] @ ''email'' @ [CHR 0x22]) None)"
    and v': "filter is_action (fst (execute sample_table other_resource_env)) = []"
    by (simp_all add: unregistered_parameters)
  from s so tab u u' m v v' sample_found show ?thesis
    by (simp add: unregistered_open unregistered_parameters)
qed

text \<open>
  C10 does not hold of the message on every host: on a host whose \<open>NodeApiError\<close>
  replaces a message that contains \<open>ECONNREFUSED\<close>, the operation \<open>ECONNREFUSED\<close>,
  which is not registered, gives an error whose message is not
  \<open>Unknown operation "ECONNREFUSED" for resource "mailbox"\<close>, the text that is
  logged and that the error is built from.
\<close>

theorem unknown_operation_counterexample:
  "getNodeParameter describing_env ''resource'' 0 = ''mailbox''
   \<and> getNodeParameter describing_env ''operation'' 0 = ''ECONNREFUSED''
   \<and> find_handler sample_table ''mailbox'' ''ECONNREFUSED'' = None
   \<and> nodeApiErrorMessage describing_env
         (''Unknown operation '' @ [CHR 0x22] @ ''ECONNREFUSED'' @ [CHR 0x22] @
          '' for resource '' @ [CHR 0x22] @ ''mailbox'' @ [CHR 0x22]) =
       ''The service refused the connection - perhaps it is offline''
   \<and> execute sample_table describing_env =
       ([EvGetNodeParameter ''authentication'' 0, EvGetInputData,
         EvGetNodeParameter ''credentialsField'' 0,
         EvCreateImapClient (extract_credentials sample_credentials), EvConnect (ImapFlow 0),
         EvGetNodeParameter ''resource'' 0, EvGetNodeParameter ''operation'' 0,
         EvLog LogError
           (''Unknown operation '' @ [CHR 0x22] @ ''ECONNREFUSED'' @ [CHR 0x22] @
            '' for resource '' @ [CHR 0x22] @ ''mailbox'' @ [CHR 0x22]),
         EvLogout (ImapFlow 0),
         EvLog LogError
           ''IMAP connection closed. Error: The service refused the connection - perhaps it is offline''],
        Inl (NodeApiError ''The service refused the connection - perhaps it is offline'' None))
   \<and> ''The service refused the connection - perhaps it is offline'' \<noteq>
       ''Unknown operation '' @ [CHR 0x22] @ ''ECONNREFUSED'' @ [CHR 0x22] @
       '' for resource '' @ [CHR 0x22] @ ''mailbox'' @ [CHR 0x22]"
  by (simp add: model_defs sample_defs)

text \<open>
  C4, in the form that holds. When the connection is open and a handler is registered
  for the resource and operation, the handler calls made are those for the items
  \<open>0, 1, ..., m - 1\<close>, in this order, once each, on the one client the execution
  connected and logs out. When the processing of no item throws, there is one call for
  every input item and the result list is the items the calls returned, in the order of
  the calls. When the processing of item \<open>k\<close> is the first to throw (its handler call is
  rejected, or its result is too long to be spread into \<open>push\<close>), the calls made are
  those for the items \<open>0, ..., k\<close> and the execution fails.
\<close>

theorem sequential_processing:
  assumes "open_connection env = (t, Inr client)"
    and "find_handler defs (getNodeParameter env ''resource'' 0)
           (getNodeParameter env ''operation'' 0) = Some handler"
  shows "(\<exists>m\<le>length (getInputData env).
            filter is_action (fst (execute defs env)) =
            map (\<lambda>i. EvExecuteImapAction i client) [0..<m])
       \<and> ((\<forall>i<length (getInputData env). \<not> action_throws env handler client i) \<longrightarrow>
            filter is_action (fst (execute defs env)) =
              map (\<lambda>i. EvExecuteImapAction i client) [0..<length (getInputData env)]
          \<and> snd (execute defs env) =
              Inr [concat (map (action_items env handler client) [0..<length (getInputData env)])])
       \<and> (\<forall>k<length (getInputData env).
             action_throws env handler client k
             \<and> (\<forall>j<k. \<not> action_throws env handler client j) \<longrightarrow>
               filter is_action (fst (execute defs env)) =
                 map (\<lambda>i. EvExecuteImapAction i client) [0..<Suc k]
             \<and> (\<exists>error. snd (execute defs env) = Inl error))
       \<and> filter is_connect (fst (execute defs env)) = [EvConnect client]
       \<and> filter is_logout (fst (execute defs env)) = [EvLogout client]"
proof (intro conjI impI allI)
  show "\<exists>m\<le>length (getInputData env).
            filter is_action (fst (execute defs env)) =
            map (\<lambda>i. EvExecuteImapAction i client) [0..<m]"
    using run_actions_prefix[OF assms(2)] by (simp add: execute_actions[OF assms(1)])
  show "filter is_connect (fst (execute defs env)) = [EvConnect client]"
    using open_connection_connects[OF assms(1)] assms(1) by (simp add: execute_filter_open)
  show "filter is_logout (fst (execute defs env)) = [EvLogout client]"
    using assms(1) by (simp add: execute_filter_logout)
next
  assume "\<forall>i<length (getInputData env). \<not> action_throws env handler client i"
  then have nt: "\<And>i. i < length (getInputData env) \<Longrightarrow> \<not> action_throws env handler client i"
    by blast
  show "filter is_action (fst (execute defs env)) =
              map (\<lambda>i. EvExecuteImapAction i client) [0..<length (getInputData env)]"
    by (simp add: execute_actions[OF assms(1)] run_all(1)[OF assms(2) nt])
  show "snd (execute defs env) =
              Inr [concat (map (action_items env handler client) [0..<length (getInputData env)])]"
    by (simp add: execute_connected(2)[OF assms(1)] run_all(2)[OF assms(2) nt])
next
  fix k
  assume k: "k < length (getInputData env)"
    and a: "action_throws env handler client k \<and> (\<forall>j<k. \<not> action_throws env handler client j)"
  then obtain e where e: "item_error env handler client k = Some e"
    by (auto simp: action_throws_iff)
  have nt: "\<And>j. j < k \<Longrightarrow> \<not> action_throws env handler client j" using a by blast
  show "filter is_action (fst (execute defs env)) =
                 map (\<lambda>i. EvExecuteImapAction i client) [0..<Suc k]"
    by (simp add: execute_actions[OF assms(1)] run_stop(1)[OF assms(2) k e nt])
  show "\<exists>error. snd (execute defs env) = Inl error"
    by (simp add: execute_connected(2)[OF assms(1)] run_stop(2)[OF assms(2) k e nt])
qed

theorem sequential_processing_witness:
  "length (getInputData sample_env) = 2
   \<and> filter is_action (fst (execute sample_table sample_env)) =
      [EvExecuteImapAction 0 (ImapFlow 0), EvExecuteImapAction 1 (ImapFlow 0)]
   \<and> snd (execute sample_table sample_env) = Inr [[\<lparr> json = [(''path'', JString ''INBOX'')] \<rparr>]]
   \<and> filter is_connect (fst (execute sample_table sample_env)) = [EvConnect (ImapFlow 0)]
   \<and> filter is_logout (fst (execute sample_table sample_env)) = [EvLogout (ImapFlow 0)]
   \<and> length (getInputData three_items_env) = 3
   \<and> action_throws three_items_env (rejecting_handler ThrownUndefined []) (ImapFlow 0) 1
   \<and> \<not> action_throws three_items_env (rejecting_handler ThrownUndefined []) (ImapFlow 0) 0
   \<and> filter is_action (fst (execute (rejecting_table ThrownUndefined []) three_items_env)) =
      [EvExecuteImapAction 0 (ImapFlow 0), EvExecuteImapAction 1 (ImapFlow 0)]
   \<and> filter is_logout (fst (execute (rejecting_table ThrownUndefined []) three_items_env)) =
      [EvLogout (ImapFlow 0)]
   \<and> length (getInputData no_argument_env) = 2
   \<and> action_result (executeImapAction sample_handler no_argument_env 0 (ImapFlow 0)) =
      Fulfilled (Some [\<lparr> json = [(''path'', JString ''INBOX'')] \<rparr>])
   \<and> argumentLimit no_argument_env = 0
   \<and> action_throws no_argument_env sample_handler (ImapFlow 0) 0
   \<and> filter is_action (fst (execute sample_table no_argument_env)) =
      [EvExecuteImapAction 0 (ImapFlow 0)]"
proof -
  have l: "length (getInputData sample_env) = 2"
    by (simp add: sample_env_def sample_items_def)
  have i: "concat (map (action_items sample_env sample_handler (ImapFlow 0)) [0..<2]) =
      [\<lparr> json = [(''path'', JString ''INBOX'')] \<rparr>]"
    by (simp add: action_items_def sample_handler_def upt_rec)
  from sequential_processing[OF sample_open sample_found] sample_no_throw
  have "filter is_action (fst (execute sample_table sample_env)) =
          map (\<lambda>i. EvExecuteImapAction i (ImapFlow 0)) [0..<length (getInputData sample_env)]
      \<and> snd (execute sample_table sample_env) =
          Inr [concat (map (action_items sample_env sample_handler (ImapFlow 0))
                 [0..<length (getInputData sample_env)])]
      \<and> filter is_connect (fst (execute sample_table sample_env)) = [EvConnect (ImapFlow 0)]
      \<and> filter is_logout (fst (execute sample_table sample_env)) = [EvLogout (ImapFlow 0)]"
    by blast
  then have a: "filter is_action (fst (execute sample_table sample_env)) =
      [EvExecuteImapAction 0 (ImapFlow 0), EvExecuteImapAction 1 (ImapFlow 0)]
   \<and> snd (execute sample_table sample_env) = Inr [[\<lparr> json = [(''path'', JString ''INBOX'')] \<rparr>]]
   \<and> filter is_connect (fst (execute sample_table sample_env)) = [EvConnect (ImapFlow 0)]
   \<and> filter is_logout (fst (execute sample_table sample_env)) = [EvLogout (ImapFlow 0)]"
    unfolding l i by (simp add: upt_rec)
  have th: "action_throws three_items_env (rejecting_handler ThrownUndefined []) (ImapFlow 0) (Suc 0)"
    using rejecting_facts(2) by (rule rejected_throws)
  have nt: "\<forall>j<Suc 0. \<not> action_throws three_items_env (rejecting_handler ThrownUndefined []) (ImapFlow 0) j"
    by (rule rejecting_facts(3))
  from sequential_processing[OF three_items_open rejecting_found, of ThrownUndefined "[]",
      THEN conjunct2, THEN conjunct2, THEN conjunct1, rule_format, OF rejecting_facts(1) conjI,
      OF th nt]
  have b: "filter is_action (fst (execute (rejecting_table ThrownUndefined []) three_items_env)) =
      [EvExecuteImapAction 0 (ImapFlow 0), EvExecuteImapAction 1 (ImapFlow 0)]"
    by (simp add: upt_rec)
  from sequential_processing[OF three_items_open rejecting_found, of ThrownUndefined "[]"]
  have c: "filter is_logout (fst (execute (rejecting_table ThrownUndefined []) three_items_env)) =
      [EvLogout (ImapFlow 0)]"
    by blast
  have o: "open_connection no_argument_env =
     ([EvGetNodeParameter ''authentication'' 0, EvGetInputData,
       EvGetNodeParameter ''credentialsField'' 0,
       EvCreateImapClient (extract_credentials sample_credentials), EvConnect (ImapFlow 0)],
      Inr (ImapFlow 0))"
    by (simp add: open_connection_def resolve_credentials_def credentials_field_value_def
          CREDENTIALS_TYPE_FROM_INPUT_def sample_defs extract_credentials_def js_or_def)
  have f: "find_handler sample_table (getNodeParameter no_argument_env ''resource'' 0)
     (getNodeParameter no_argument_env ''operation'' 0) = Some sample_handler"
    by (simp add: find_handler_def sample_defs)
  have n: "length (getInputData no_argument_env) = 2"
      "action_result (executeImapAction sample_handler no_argument_env 0 (ImapFlow 0)) =
         Fulfilled (Some [\<lparr> json = [(''path'', JString ''INBOX'')] \<rparr>])"
      "argumentLimit no_argument_env = 0"
    by (simp_all add: sample_defs)
  have n0: "0 < length (getInputData no_argument_env)" using n(1) by simp
  have th0: "action_throws no_argument_env sample_handler (ImapFlow 0) 0"
    by (simp add: action_throws_def item_error_def n)
  have nt0: "\<forall>j<0. \<not> action_throws no_argument_env sample_handler (ImapFlow 0) j" by simp
  from sequential_processing[OF o f,
      THEN conjunct2, THEN conjunct2, THEN conjunct1, rule_format, OF n0 conjI, OF th0 nt0]
  have d: "filter is_action (fst (execute sample_table no_argument_env)) =
      [EvExecuteImapAction 0 (ImapFlow 0)]"
    by simp
  from l a th nt b c n th0 d show ?thesis by (simp add: three_items_host)
qed

text \<open>
  C4 does not hold of every list of input items: with three items and a handler whose
  call for the second item is rejected, the handler is called for the first two items
  only; and with two items and a server that refuses the connection, the handler is not
  called at all.
\<close>

theorem sequential_processing_counterexample:
  "length (getInputData three_items_env) = 3
   \<and> find_handler (rejecting_table (OtherError None (Some ''Mailbox is locked'') (Stringified ''{}'')) [])
        ''mailbox'' ''loadMailboxList'' =
      Some (rejecting_handler (OtherError None (Some ''Mailbox is locked'') (Stringified ''{}'')) [])
   \<and> execute (rejecting_table (OtherError None (Some ''Mailbox is locked'') (Stringified ''{}'')) [])
        three_items_env =
       ([EvGetNodeParameter ''authentication'' 0, EvGetInputData,
         EvGetNodeParameter ''credentialsField'' 0,
         EvCreateImapClient (extract_credentials sample_credentials), EvConnect (ImapFlow 0),
         EvGetNodeParameter ''resource'' 0, EvGetNodeParameter ''operation'' 0, EvGetInputData,
         EvStartErrorCatching, EvExecuteImapAction 0 (ImapFlow 0),
         EvStartErrorCatching, EvExecuteImapAction 1 (ImapFlow 0),
         EvStopAndGetErrors,
         EvLog LogError
           (''Operation '' @ [CHR 0x22] @ ''loadMailboxList'' @ [CHR 0x22] @ '' for resource '' @
            [CHR 0x22] @ ''mailbox'' @ [CHR 0x22] @ '' failed: Mailbox is locked''),
         EvLog LogError ''{}'',
         EvLogout (ImapFlow 0),
         EvLog LogError ''IMAP connection closed. Error: Mailbox is locked''],
        Inl (NodeApiError ''Mailbox is locked'' None))
   \<and> filter is_action
        (fst (execute (rejecting_table (OtherError None (Some ''Mailbox is locked'') (Stringified ''{}'')) [])
               three_items_env)) =
       [EvExecuteImapAction 0 (ImapFlow 0), EvExecuteImapAction 1 (ImapFlow 0)]
   \<and> length (getInputData refused_env) = 2
   \<and> find_handler sample_table ''mailbox'' ''loadMailboxList'' = Some sample_handler
   \<and> execute sample_table refused_env =
       ([EvGetNodeParameter ''authentication'' 0, EvGetInputData,
         EvGetNodeParameter ''credentialsField'' 0,
         EvCreateImapClient (extract_credentials sample_credentials), EvConnect (ImapFlow 0),
         EvLog LogError ''Connection failed: refused''],
        Inl (NodeApiError ''refused'' None))
   \<and> filter is_action (fst (execute sample_table refused_env)) = []"
  by (simp add: model_defs sample_defs item_loop.simps)






text \<open>
  C9. A successful execution returns one branch. The branch is the concatenation, in
  item order, of the items the handler calls returned; a call that returned a falsy
  value adds nothing to it and logs one warning, and no error is logged.
\<close>

theorem successful_execution:
  assumes "snd (execute defs env) = Inr resultBranches"
  shows "\<exists>t client handler.
           open_connection env = (t, Inr client)
         \<and> find_handler defs (getNodeParameter env ''resource'' 0)
             (getNodeParameter env ''operation'' 0) = Some handler
         \<and> resultBranches =
             [concat (map (action_items env handler client) [0..<length (getInputData env)])]
         \<and> length resultBranches = 1
         \<and> (\<forall>i. action_result (executeImapAction handler env i client) = Fulfilled None \<longrightarrow>
                action_items env handler client i = [])
         \<and> filter is_warning (fst (execute defs env)) =
             map (\<lambda>i. no_data_warning (getNodeParameter env ''resource'' 0)
                        (getNodeParameter env ''operation'' 0))
               (filter (\<lambda>i. action_result (executeImapAction handler env i client) = Fulfilled None)
                  [0..<length (getInputData env)])
         \<and> filter is_error_log (fst (execute defs env)) = []"
proof -
  from execute_Inr[OF assms] obtain t client handler where
    o: "open_connection env = (t, Inr client)" and
    f: "find_handler defs (getNodeParameter env ''resource'' 0)
       (getNodeParameter env ''operation'' 0) = Some handler" and
    nt: "\<And>i. i < length (getInputData env) \<Longrightarrow> \<not> action_throws env handler client i"
    by blast
  have r: "resultBranches =
             [concat (map (action_items env handler client) [0..<length (getInputData env)])]"
    using assms by (simp add: execute_connected(2)[OF o] run_all(2)[OF f nt])
  have w: "filter is_warning (fst (execute defs env)) =
             map (\<lambda>i. no_data_warning (getNodeParameter env ''resource'' 0)
                        (getNodeParameter env ''operation'' 0))
               (filter (\<lambda>i. action_result (executeImapAction handler env i client) = Fulfilled None)
                  [0..<length (getInputData env)])"
    using o open_connection_Inr_logs[OF o]
    by (simp add: execute_fst run_all[OF f nt])
  have e: "filter is_error_log (fst (execute defs env)) = []"
    using o open_connection_Inr_logs[OF o]
    by (simp add: execute_fst run_all[OF f nt])
  have z: "\<forall>i. action_result (executeImapAction handler env i client) = Fulfilled None \<longrightarrow>
                action_items env handler client i = []"
    by (simp add: action_items_def)
  from o f r w e z show ?thesis by auto
qed

theorem successful_execution_witness:
  "snd (execute sample_table sample_env) = Inr [[\<lparr> json = [(''path'', JString ''INBOX'')] \<rparr>]]
   \<and> action_result (executeImapAction sample_handler sample_env 1 (ImapFlow 0)) = Fulfilled None
   \<and> filter is_warning (fst (execute sample_table sample_env)) =
       [no_data_warning ''mailbox'' ''loadMailboxList'']
   \<and> filter is_error_log (fst (execute sample_table sample_env)) = []"
proof -
  have l: "[0..<length (getInputData sample_env)] = [0, 1]"
    by (simp add: sample_env_def sample_items_def upt_rec)
  have p: "getNodeParameter sample_env ''resource'' 0 = ''mailbox''"
    "getNodeParameter sample_env ''operation'' 0 = ''loadMailboxList''"
    by (simp_all add: sample_env_def sample_parameters_def)
  have r: "action_result (executeImapAction sample_handler sample_env 0 (ImapFlow 0)) \<noteq> Fulfilled None"
    "action_result (executeImapAction sample_handler sample_env 1 (ImapFlow 0)) = Fulfilled None"
    by (simp_all add: sample_handler_def)
  from successful_execution[OF sample_result] sample_open sample_found
  have "filter is_warning (fst (execute sample_table sample_env)) =
             map (\<lambda>i. no_data_warning (getNodeParameter sample_env ''resource'' 0)
                        (getNodeParameter sample_env ''operation'' 0))
               (filter (\<lambda>i. action_result (executeImapAction sample_handler sample_env i (ImapFlow 0)) = Fulfilled None)
                  [0..<length (getInputData sample_env)])
         \<and> filter is_error_log (fst (execute sample_table sample_env)) = []"
    by auto
  then show ?thesis using sample_result r by (simp add: l p)
qed

end
